theory Spec2Isabelle
  imports Main "HOL-Library.AList"
begin

section \<open>The Go standard library, as far as the package calls it\<close>

text \<open>
  Go strings are byte sequences: \<^typ>\<open>string\<close>. The package calls five functions
  of the standard library on them: \<^verbatim>\<open>utf8.DecodeRuneInString\<close>,
  \<^verbatim>\<open>unicode.IsUpper\<close>, \<^verbatim>\<open>strings.Split\<close>, \<^verbatim>\<open>strings.Index\<close> and
  \<^verbatim>\<open>strings.ToLower\<close>. Their ASCII and Latin-1 behaviour is written out. What they do beyond it (the
  decoding of a multi-byte sequence, the upper-case table above U+00FF, the case
  mapping of a string with a non-ASCII byte) is a table of the standard library
  that is no part of this repository: it is a parameter of the model, so every
  theorem holds for each such table.
\<close>

record stdlib =
  decode_multibyte :: "string \<Rightarrow> nat"
  upper_above_latin1 :: "nat \<Rightarrow> bool"
  lower_non_ascii :: "string \<Rightarrow> string"

definition RuneError :: nat where
  "RuneError = 0xFFFD"

definition RuneSelf :: nat where
  "RuneSelf = 0x80"

definition MaxLatin1 :: nat where
  "MaxLatin1 = 0xFF"

text \<open>
  \<^verbatim>\<open>utf8.DecodeRuneInString(s)\<close>, the rune only: \<^verbatim>\<open>RuneError\<close> on the empty
  string, the byte itself when the first byte is below \<^verbatim>\<open>RuneSelf\<close>.
\<close>

definition DecodeRuneInString :: "stdlib \<Rightarrow> string \<Rightarrow> nat" where
  "DecodeRuneInString L s =
     (case s of
        [] \<Rightarrow> RuneError
      | c # _ \<Rightarrow> if of_char c < RuneSelf then of_char c else decode_multibyte L s)"

text \<open>
  \<^verbatim>\<open>unicode.IsUpper(r)\<close>: in Latin-1 the letters A to Z, and U+00C0 to U+00DE
  without the multiplication sign U+00D7.
\<close>

definition IsUpper :: "stdlib \<Rightarrow> nat \<Rightarrow> bool" where
  "IsUpper L r =
     (if r \<le> MaxLatin1
      then (0x41 \<le> r \<and> r \<le> 0x5A) \<or> (0xC0 \<le> r \<and> r \<le> 0xDE \<and> r \<noteq> 0xD7)
      else upper_above_latin1 L r)"

text \<open>
  \<^verbatim>\<open>strings.Split(s, sep)\<close> for a separator of one byte: one more part than
  there are separators in \<open>s\<close>, so never the empty list.
\<close>

fun Split :: "string \<Rightarrow> char \<Rightarrow> string list" where
  "Split [] sep = [[]]"
| "Split (c # cs) sep =
     (if c = sep then [] # Split cs sep
      else (case Split cs sep of
              [] \<Rightarrow> [[c]]
            | p # ps \<Rightarrow> (c # p) # ps))"

text \<open>
  \<^verbatim>\<open>strings.Index(s, sep)\<close> for a separator of one byte: the position of its first
  occurrence, or -1.
\<close>

fun Index :: "string \<Rightarrow> char \<Rightarrow> int" where
  "Index [] sep = -1"
| "Index (c # cs) sep =
     (if c = sep then 0
      else (let i = Index cs sep in if i = -1 then -1 else i + 1))"

text \<open>
  \<^verbatim>\<open>strings.ToLower(s)\<close>: a string of ASCII bytes has its letters A to Z mapped to
  a to z.
\<close>

definition lower_byte :: "char \<Rightarrow> char" where
  "lower_byte c =
     (if 0x41 \<le> (of_char c :: nat) \<and> (of_char c :: nat) \<le> 0x5A
      then char_of (of_char c + (0x20 :: nat)) else c)"

definition ToLower :: "stdlib \<Rightarrow> string \<Rightarrow> string" where
  "ToLower L s =
     (if list_all (\<lambda>c. (of_char c :: nat) < RuneSelf) s then map lower_byte s
      else lower_non_ascii L s)"

section \<open>Reflection: types and methods\<close>

text \<open>
  A \<^verbatim>\<open>reflect.Type\<close> as \<^verbatim>\<open>register\<close> reads it. A type of kind
  \<^verbatim>\<open>reflect.Ptr\<close> has a name, a package path and an element type
  (\<^verbatim>\<open>Name()\<close>, \<^verbatim>\<open>PkgPath()\<close>, \<^verbatim>\<open>Elem()\<close>); a type of any other kind has
  its kind, name and package path. An unnamed type has the empty name, and a
  predeclared or unnamed type the empty package path. Equality of two values
  stands for the identity of the two \<^verbatim>\<open>reflect.Type\<close>s.
\<close>

datatype Kind =
    Bool | Int | Int8 | Int16 | Int32 | Int64
  | Uint | Uint8 | Uint16 | Uint32 | Uint64 | Uintptr
  | Float32 | Float64 | Complex64 | Complex128
  | Array | Chan | Func | Interface | Map | Slice | String | Struct | UnsafePointer

datatype Type =
    PtrType string string Type
  | NonPtrType Kind string string

fun type_Name :: "Type \<Rightarrow> string" where
  "type_Name (PtrType n p e) = n"
| "type_Name (NonPtrType k n p) = n"

fun type_PkgPath :: "Type \<Rightarrow> string" where
  "type_PkgPath (PtrType n p e) = p"
| "type_PkgPath (NonPtrType k n p) = p"

text \<open>
  \<^verbatim>\<open>typeOfError\<close> and \<^verbatim>\<open>typeOfRequest\<close>: the predeclared interface
  \<^verbatim>\<open>error\<close> and the struct \<^verbatim>\<open>http.Request\<close>.
\<close>

definition typeOfError :: Type where
  "typeOfError = NonPtrType Interface ''error'' ''''"

definition typeOfRequest :: Type where
  "typeOfRequest = NonPtrType Struct ''Request'' ''net/http''"

text \<open>
  \<^verbatim>\<open>reflect.Indirect(v).Type()\<close> for a receiver value \<open>v\<close> of type \<open>t\<close> that is not
  nil: the element type when \<open>t\<close> is a pointer type, \<open>t\<close> itself otherwise.
\<close>

fun Indirect_Type :: "Type \<Rightarrow> Type" where
  "Indirect_Type (PtrType n p e) = e"
| "Indirect_Type (NonPtrType k n p) = NonPtrType k n p"

text \<open>
  An inbound \<^verbatim>\<open>*http.Request\<close>: the pointer (two requests are the same
  instance when they are equal, the address included), the verb and the header.
  \<^verbatim>\<open>Header.Get(key)\<close> is the first value stored under the key, or the empty
  string.
\<close>

record Request =
  addr :: nat
  Verb :: string
  Header :: "(string \<times> string list) list"

definition Header_Get :: "(string \<times> string list) list \<Rightarrow> string \<Rightarrow> string" where
  "Header_Get h key =
     (case map_of h key of
        None \<Rightarrow> ''''
      | Some [] \<Rightarrow> ''''
      | Some (v # _) \<Rightarrow> v)"

text \<open>
  The errors of the package. Modelled from the spec: the constructors
  \<^verbatim>\<open>NewRpc...Error\<close> that \<^verbatim>\<open>ServeHTTP\<close> and \<^verbatim>\<open>get\<close> call are declared
  outside the source file; the spec's error taxonomy gives one kind to each.
  The four \<^verbatim>\<open>fmt.Errorf\<close> errors of \<^verbatim>\<open>register\<close> are told apart by their
  format string and carry its argument. \<open>Application\<close> is an error a service
  method returns.
\<close>

datatype error =
    MethodNotAllowedError string
  | UnsupportedMediaTypeError string
  | CodecRequestMethodError string
  | MalformedMethodNameError string
  | ServiceNotFoundError string
  | MethodNotFoundError string
  | CodecReadRequestError string
  | CodecWriteResponseError string
  | TypeNotExported string
  | NoServiceName Type
  | NoSuitableMethods string
  | ServiceAlreadyDefined string
  | Application string

text \<open>
  A \<^verbatim>\<open>reflect.Method\<close> of the receiver's type: its name, its package path
  (empty for an exported method), the parameter types of \<^verbatim>\<open>method.Type\<close> with
  the receiver first (\<^verbatim>\<open>NumIn\<close>, \<^verbatim>\<open>In(i)\<close>), its result types (\<^verbatim>\<open>NumOut\<close>,
  \<^verbatim>\<open>Out(i)\<close>), and the function \<^verbatim>\<open>method.Func\<close> bound to the receiver: from
  the request (when the service takes one) and the decoded arguments to the
  reply it leaves in the reply buffer and the error it returns.
\<close>

record 'v Method =
  Name :: string
  PkgPath :: string
  In :: "Type list"
  Out :: "Type list"
  Func :: "Request option \<Rightarrow> 'v \<Rightarrow> 'v \<times> error option"

text \<open>
  A receiver: \<^verbatim>\<open>reflect.TypeOf(rcvr)\<close> and the method set of that type
  (\<^verbatim>\<open>NumMethod\<close>, \<^verbatim>\<open>Method(i)\<close>). The receiver is not nil: on a nil
  interface or a nil pointer the package \<^verbatim>\<open>reflect\<close> panics before
  \<^verbatim>\<open>register\<close> makes any decision of its own.
\<close>

record 'v Receiver =
  TypeOf :: Type
  Methods :: "'v Method list"

section \<open>The service registry\<close>

record 'v serviceMethod =
  smethod :: "'v Method"
  argsType :: Type
  replyType :: Type

record 'v service =
  name :: string
  rcvr :: "'v Receiver"
  rcvrType :: Type
  methods :: "(string \<times> 'v serviceMethod) list"
  passReq :: bool

text \<open>
  The registry. \<open>services\<close> is \<open>None\<close> while the Go map is nil. \<^verbatim>\<open>register\<close>
  returns, with its result, the sequence of its operations on the mutex and on
  the map; the mutex itself is modelled below, where the locked part of
  \<^verbatim>\<open>register\<close> is run one operation at a time.
\<close>

record 'v serviceMap =
  services :: "(string \<times> 'v service) list option"

datatype sync_event =
    Lock
  | Unlock
  | MakeMap
  | Lookup string
  | Store string

definition isExported :: "stdlib \<Rightarrow> string \<Rightarrow> bool" where
  "isExported L nm = IsUpper L (DecodeRuneInString L nm)"

fun isExportedOrBuiltin :: "stdlib \<Rightarrow> Type \<Rightarrow> bool" where
  "isExportedOrBuiltin L (PtrType n p e) = isExportedOrBuiltin L e"
| "isExportedOrBuiltin L (NonPtrType k n p) = (isExported L n \<or> p = '''')"

text \<open>
  One round of the loop over the receiver's methods: \<open>pr\<close> is the parameter
  \<^verbatim>\<open>passReq\<close>, \<open>ms\<close> is \<^verbatim>\<open>s.methods\<close> before the round, the result is
  \<^verbatim>\<open>s.methods\<close> after it. Each \<^verbatim>\<open>continue\<close>
  leaves the table as it is.
\<close>

definition register_method ::
  "stdlib \<Rightarrow> bool \<Rightarrow> (string \<times> 'v serviceMethod) list \<Rightarrow> 'v Method \<Rightarrow>
   (string \<times> 'v serviceMethod) list" where
  "register_method L pr ms m =
     (let paramOffset = (if pr then 1 else 0 :: nat) in
      if PkgPath m \<noteq> '''' then ms
      else if length (In m) \<noteq> 3 + paramOffset then ms
      else if pr \<and>
              (case In m ! 1 of
                 PtrType n p e \<Rightarrow> e \<noteq> typeOfRequest
               | NonPtrType k n p \<Rightarrow> True) then ms
      else (case In m ! (1 + paramOffset) of
              NonPtrType k n p \<Rightarrow> ms
            | PtrType an ap argsElem \<Rightarrow>
                if \<not> isExportedOrBuiltin L (PtrType an ap argsElem) then ms
                else (case In m ! (2 + paramOffset) of
                        NonPtrType k n p \<Rightarrow> ms
                      | PtrType rn rp replyElem \<Rightarrow>
                          if \<not> isExportedOrBuiltin L (PtrType rn rp replyElem) then ms
                          else if length (Out m) \<noteq> 1 then ms
                          else if Out m ! 0 \<noteq> typeOfError then ms
                          else AList.update (Name m)
                                 \<lparr>smethod = m, argsType = argsElem, replyType = replyElem\<rparr> ms)))"

text \<open>
  The loop itself, over \<^verbatim>\<open>s.rcvrType.Method(i)\<close> for \<open>i\<close> from 0 to
  \<^verbatim>\<open>NumMethod() - 1\<close>, started on the table \<open>ms\<close>.
\<close>

definition register_methods ::
  "stdlib \<Rightarrow> bool \<Rightarrow> (string \<times> 'v serviceMethod) list \<Rightarrow> 'v Receiver \<Rightarrow>
   (string \<times> 'v serviceMethod) list" where
  "register_methods L pr ms r = foldl (register_method L pr) ms (Methods r)"

text \<open>
  \<^verbatim>\<open>register\<close>: the error it returns (\<open>None\<close> for nil), the registry after the
  call, and its operations on the mutex and the map in program order. The
  deferred \<^verbatim>\<open>Unlock\<close> runs when the function returns.
\<close>

definition register ::
  "stdlib \<Rightarrow> 'v serviceMap \<Rightarrow> 'v Receiver \<Rightarrow> string \<Rightarrow> bool \<Rightarrow>
   error option \<times> 'v serviceMap \<times> sync_event list" where
  "register L m r nm pr =
     (let s = \<lparr>name = nm, rcvr = r, rcvrType = TypeOf r, methods = [], passReq = pr\<rparr>;
          s = (if nm = '''' then s\<lparr>name := type_Name (Indirect_Type (TypeOf r))\<rparr> else s)
      in
      if nm = '''' \<and> \<not> isExported L (name s) then (Some (TypeNotExported (name s)), m, [])
      else if name s = '''' then (Some (NoServiceName (rcvrType s)), m, [])
      else
        (let s = s\<lparr>methods := register_methods L pr (methods s) r\<rparr> in
         if length (methods s) = 0 then (Some (NoSuitableMethods (name s)), m, [])
         else
           (case services m of
              None \<Rightarrow>
                (None, m\<lparr>services := Some (AList.update (name s) s [])\<rparr>,
                 [Lock, MakeMap, Store (name s), Unlock])
            | Some sv \<Rightarrow>
                (case map_of sv (name s) of
                   Some old \<Rightarrow>
                     (Some (ServiceAlreadyDefined (name s)), m,
                      [Lock, Lookup (name s), Unlock])
                 | None \<Rightarrow>
                     (None, m\<lparr>services := Some (AList.update (name s) s sv)\<rparr>,
                      [Lock, Lookup (name s), Store (name s), Unlock])))))"

text \<open>
  \<^verbatim>\<open>m.services[key]\<close>: a lookup in a nil map, like one of a key that is absent,
  gives nil.
\<close>

definition services_at :: "'v serviceMap \<Rightarrow> string \<Rightarrow> 'v service option" where
  "services_at m key = (case services m of None \<Rightarrow> None | Some sv \<Rightarrow> map_of sv key)"

text \<open>
  \<^verbatim>\<open>get\<close>: the service and the method of a dotted name, or the error. The mutex
  is held for the one read of the map and released before \<^verbatim>\<open>get\<close> goes on.
\<close>

definition get ::
  "'v serviceMap \<Rightarrow> string \<Rightarrow> error + ('v service \<times> 'v serviceMethod)" where
  "get m mname =
     (let parts = Split mname CHR ''.'' in
      if length parts \<noteq> 2 then Inl (MalformedMethodNameError mname)
      else
        (case services_at m (parts ! 0) of
           None \<Rightarrow> Inl (ServiceNotFoundError mname)
         | Some svc \<Rightarrow>
             (case map_of (methods svc) (parts ! 1) of
                None \<Rightarrow> Inl (MethodNotFoundError mname)
              | Some sm \<Rightarrow> Inr (svc, sm))))"

subsection \<open>The locked part of register, one operation at a time\<close>

text \<open>
  Several goroutines may call \<^verbatim>\<open>register\<close> at once. Each of them builds its
  service \<^verbatim>\<open>s\<close> on its own; what they share is the registry, from
  \<^verbatim>\<open>m.mutex.Lock()\<close> on. A goroutine is at one of these positions: before
  \<^verbatim>\<open>Lock\<close>, at the \<^verbatim>\<open>if\<close> that reads the map, at the assignment
  \<^verbatim>\<open>m.services[s.name] = s\<close>, at the deferred \<^verbatim>\<open>Unlock\<close> with the value it
  is returning, and returned.
\<close>

datatype position = AtLock | AtCheck | AtStore | AtUnlock "error option" | Done "error option"

text \<open>
  The shared state: the goroutine that holds the mutex, the registry, the
  position of every goroutine, and the operations so far, each with the
  goroutine that made it.
\<close>

record 'v config =
  holder :: "nat option"
  shared :: "'v serviceMap"
  pos :: "nat \<Rightarrow> position"
  trace :: "(nat \<times> sync_event) list"

text \<open>
  One operation of goroutine \<open>t\<close>, which registers the service \<open>s\<close>; \<open>None\<close>
  when it cannot move. \<^verbatim>\<open>Lock\<close> blocks while another goroutine holds the mutex.
  An assignment to an entry of a nil map would panic; the goroutine is left at
  that position.
\<close>

definition thread_step :: "nat \<Rightarrow> 'v service \<Rightarrow> 'v config \<Rightarrow> 'v config option" where
  "thread_step t s c =
     (case pos c t of
        AtLock \<Rightarrow>
          (if holder c = None
           then Some (c\<lparr>holder := Some t, pos := (pos c)(t := AtCheck),
                       trace := trace c @ [(t, Lock)]\<rparr>)
           else None)
      | AtCheck \<Rightarrow>
          (case services (shared c) of
             None \<Rightarrow>
               Some (c\<lparr>shared := (shared c)\<lparr>services := Some []\<rparr>,
                       pos := (pos c)(t := AtStore), trace := trace c @ [(t, MakeMap)]\<rparr>)
           | Some sv \<Rightarrow>
               (case map_of sv (name s) of
                  Some old \<Rightarrow>
                    Some (c\<lparr>pos := (pos c)(t := AtUnlock (Some (ServiceAlreadyDefined (name s)))),
                            trace := trace c @ [(t, Lookup (name s))]\<rparr>)
                | None \<Rightarrow>
                    Some (c\<lparr>pos := (pos c)(t := AtStore),
                            trace := trace c @ [(t, Lookup (name s))]\<rparr>)))
      | AtStore \<Rightarrow>
          (case services (shared c) of
             None \<Rightarrow> None
           | Some sv \<Rightarrow>
               Some (c\<lparr>shared := (shared c)\<lparr>services := Some (AList.update (name s) s sv)\<rparr>,
                       pos := (pos c)(t := AtUnlock None),
                       trace := trace c @ [(t, Store (name s))]\<rparr>))
      | AtUnlock e \<Rightarrow>
          Some (c\<lparr>holder := None, pos := (pos c)(t := Done e), trace := trace c @ [(t, Unlock)]\<rparr>)
      | Done e \<Rightarrow> None)"

text \<open>
  A schedule is the list of the goroutines in the order in which they are given
  the processor; a goroutine that cannot move when it is scheduled waits.
\<close>

fun run :: "(nat \<Rightarrow> 'v service) \<Rightarrow> nat list \<Rightarrow> 'v config \<Rightarrow> 'v config" where
  "run svc [] c = c"
| "run svc (t # ts) c =
     (case thread_step t (svc t) c of
        None \<Rightarrow> run svc ts c
      | Some c' \<Rightarrow> run svc ts c')"

text \<open>Every goroutine before its \<^verbatim>\<open>Lock\<close>, the mutex free, the registry \<open>m\<close>.\<close>

definition start :: "'v serviceMap \<Rightarrow> 'v config" where
  "start m = \<lparr>holder = None, shared = m, pos = (\<lambda>t. AtLock), trace = []\<rparr>"

section \<open>The server\<close>

text \<open>
  \<^verbatim>\<open>RequestInfo\<close>, the argument of the three hooks. A field a composite literal
  leaves out has Go's zero value: \<open>None\<close> for the error, 0 for the status code.
\<close>

record RequestInfo =
  info_Method :: string
  info_Error :: "error option"
  info_Request :: Request
  info_StatusCode :: nat

text \<open>
  The server. A \<^verbatim>\<open>Codec\<close> is an interface value: \<open>None\<close> is nil, \<open>Some c\<close>
  the codec \<open>c\<close>. The Go map \<open>codecs\<close> is an association list with one entry for
  each key, \<open>supportedMethods\<close> a set. The field \<open>registry\<close> is the field
  \<^verbatim>\<open>services\<close> of the Go struct. A hook is \<open>None\<close> while it is nil.
\<close>

record ('c, 'v) Server =
  codecs :: "(string \<times> 'c option) list"
  defaultCodec :: "'c option"
  registry :: "'v serviceMap"
  interceptFunc :: "(RequestInfo \<Rightarrow> Request option) option"
  beforeFunc :: "(RequestInfo \<Rightarrow> unit) option"
  afterFunc :: "(RequestInfo \<Rightarrow> unit) option"
  supportedMethods :: "string set"

definition NewServer :: "'c option \<Rightarrow> ('c, 'v) Server" where
  "NewServer dc =
     \<lparr>codecs = [], defaultCodec = dc, registry = \<lparr>services = None\<rparr>,
      interceptFunc = None, beforeFunc = None, afterFunc = None,
      supportedMethods = {''POST''}\<rparr>"

definition RegisterCodec ::
  "stdlib \<Rightarrow> ('c, 'v) Server \<Rightarrow> 'c option \<Rightarrow> string \<Rightarrow> ('c, 'v) Server" where
  "RegisterCodec L s codec contentType =
     s\<lparr>codecs := AList.update (ToLower L contentType) codec (codecs s)\<rparr>"

definition RegisterService ::
  "stdlib \<Rightarrow> ('c, 'v) Server \<Rightarrow> 'v Receiver \<Rightarrow> string \<Rightarrow> error option \<times> ('c, 'v) Server" where
  "RegisterService L s r nm =
     (case register L (registry s) r nm True of
        (err, m, ev) \<Rightarrow> (err, s\<lparr>registry := m\<rparr>))"

definition RegisterTCPService ::
  "stdlib \<Rightarrow> ('c, 'v) Server \<Rightarrow> 'v Receiver \<Rightarrow> string \<Rightarrow> error option \<times> ('c, 'v) Server" where
  "RegisterTCPService L s r nm =
     (case register L (registry s) r nm False of
        (err, m, ev) \<Rightarrow> (err, s\<lparr>registry := m\<rparr>))"

definition HasMethod :: "('c, 'v) Server \<Rightarrow> string \<Rightarrow> bool" where
  "HasMethod s mname = (case get (registry s) mname of Inl err \<Rightarrow> False | Inr found \<Rightarrow> True)"

definition RegisterInterceptFunc ::
  "('c, 'v) Server \<Rightarrow> (RequestInfo \<Rightarrow> Request option) option \<Rightarrow> ('c, 'v) Server" where
  "RegisterInterceptFunc s f = s\<lparr>interceptFunc := f\<rparr>"

definition RegisterBeforeFunc ::
  "('c, 'v) Server \<Rightarrow> (RequestInfo \<Rightarrow> unit) option \<Rightarrow> ('c, 'v) Server" where
  "RegisterBeforeFunc s f = s\<lparr>beforeFunc := f\<rparr>"

definition RegisterAfterFunc ::
  "('c, 'v) Server \<Rightarrow> (RequestInfo \<Rightarrow> unit) option \<Rightarrow> ('c, 'v) Server" where
  "RegisterAfterFunc s f = s\<lparr>afterFunc := f\<rparr>"

definition AddSupportedHTTPMethod :: "('c, 'v) Server \<Rightarrow> string \<Rightarrow> ('c, 'v) Server" where
  "AddSupportedHTTPMethod s verb = s\<lparr>supportedMethods := insert verb (supportedMethods s)\<rparr>"

section \<open>Serving a request\<close>

text \<open>
  The codecs are implemented outside the dispatcher. A \<^verbatim>\<open>CodecRequest\<close> is
  known by the codec that made it and the request it was made for; what its
  methods return is given by the environment: \<^verbatim>\<open>Method()\<close> returns the method
  name and an error, \<^verbatim>\<open>ReadRequest\<close> on a buffer of the given type leaves the
  decoded arguments in the buffer and returns an error, \<^verbatim>\<open>WriteResponse\<close> of
  a reply returns an error. A codec's error is its message, \<open>None\<close> is nil.
\<close>

type_synonym 'c CodecRequest = "'c \<times> Request"

record ('c, 'v) codec_env =
  codec_Method :: "'c CodecRequest \<Rightarrow> string \<times> string option"
  codec_ReadRequest :: "'c CodecRequest \<Rightarrow> Type \<Rightarrow> 'v \<times> string option"
  codec_WriteResponse :: "'c CodecRequest \<Rightarrow> 'v \<Rightarrow> string option"

text \<open>
  What \<^verbatim>\<open>ServeHTTP\<close> does is the sequence of its calls on the response writer,
  the codecs, the hooks and the service method, in program order. \<open>Panic\<close> is
  the call of a method on a nil codec, which ends the handler.
\<close>

datatype ('c, 'v) event =
    NewRequest 'c Request
  | WriteHeader nat
  | WriteErrorResponse "'c CodecRequest" error
  | CodecMethod "'c CodecRequest"
  | ReadRequest "'c CodecRequest" Type
  | InterceptFunc RequestInfo
  | BeforeFunc RequestInfo
  | Call string string "Request option" 'v
  | HeaderSet string string
  | WriteResponse "'c CodecRequest" 'v
  | AfterFunc RequestInfo
  | Panic

definition handleErrorResponse ::
  "nat \<Rightarrow> 'c CodecRequest \<Rightarrow> error \<Rightarrow> ('c, 'v) event list" where
  "handleErrorResponse status codecReq err =
     [WriteHeader status, WriteErrorResponse codecReq err]"

text \<open>
  \<^verbatim>\<open>s.handleErrorResponse(w, status, s.defaultCodec.NewRequest(r), err)\<close>: the
  codec request is made first, as an argument of the call.
\<close>

definition defaultErrorResponse ::
  "('c, 'v) Server \<Rightarrow> Request \<Rightarrow> nat \<Rightarrow> error \<Rightarrow> ('c, 'v) event list" where
  "defaultErrorResponse s r status err =
     (case defaultCodec s of
        None \<Rightarrow> [Panic]
      | Some dc \<Rightarrow> NewRequest dc r # handleErrorResponse status (dc, r) err)"

text \<open>
  The part of \<^verbatim>\<open>ServeHTTP\<close> that follows the choice of the codec (from
  \<^verbatim>\<open>codecReq := codec.NewRequest(r)\<close> to the end of the function).
\<close>

definition serveCodec ::
  "('c, 'v) codec_env \<Rightarrow> ('c, 'v) Server \<Rightarrow> Request \<Rightarrow> 'c option \<Rightarrow> ('c, 'v) event list" where
  "serveCodec E s r codec =
     (case codec of
        None \<Rightarrow> [Panic]
      | Some c \<Rightarrow>
          (let codecReq = (c, r) in
           NewRequest c r # CodecMethod codecReq #
           (case codec_Method E codecReq of
              (mname, Some errMethod) \<Rightarrow>
                handleErrorResponse 200 codecReq (CodecRequestMethodError errMethod)
            | (mname, None) \<Rightarrow>
                (case get (registry s) mname of
                   Inl errGet \<Rightarrow> handleErrorResponse 200 codecReq errGet
                 | Inr (serviceSpec, methodSpec) \<Rightarrow>
                     ReadRequest codecReq (argsType methodSpec) #
                     (case codec_ReadRequest E codecReq (argsType methodSpec) of
                        (args, Some errRead) \<Rightarrow>
                          handleErrorResponse 200 codecReq (CodecReadRequestError errRead)
                      | (args, None) \<Rightarrow>
                          (let info = \<lparr>info_Method = mname, info_Error = None,
                                       info_Request = r, info_StatusCode = 0\<rparr>;
                               r' = (case interceptFunc s of
                                       None \<Rightarrow> r
                                     | Some f \<Rightarrow> (case f info of None \<Rightarrow> r | Some req \<Rightarrow> req));
                               passed = (if passReq serviceSpec then Some r' else None)
                           in
                           (case interceptFunc s of None \<Rightarrow> [] | Some f \<Rightarrow> [InterceptFunc info]) @
                           (case beforeFunc s of
                              None \<Rightarrow> []
                            | Some f \<Rightarrow> [BeforeFunc (info\<lparr>info_Request := r'\<rparr>)]) @
                           Call (name serviceSpec) (Name (smethod methodSpec)) passed args #
                           (case Func (smethod methodSpec) passed args of
                              (reply, Some errInter) \<Rightarrow> handleErrorResponse 200 codecReq errInter
                            | (reply, None) \<Rightarrow>
                                HeaderSet ''x-content-type-options'' ''nosniff'' #
                                WriteResponse codecReq reply #
                                (case codec_WriteResponse E codecReq reply of
                                   Some errWrite \<Rightarrow>
                                     handleErrorResponse 200 codecReq
                                       (CodecWriteResponseError errWrite)
                                 | None \<Rightarrow>
                                     (case afterFunc s of
                                        None \<Rightarrow> []
                                      | Some f \<Rightarrow>
                                          [AfterFunc \<lparr>info_Method = mname, info_Error = None,
                                             info_Request = r', info_StatusCode = 200\<rparr>])))))))))"

text \<open>
  The content type \<^verbatim>\<open>ServeHTTP\<close> negotiates on: the header up to its first
  semicolon.
\<close>

definition contentType_of :: "Request \<Rightarrow> string" where
  "contentType_of r =
     (let contentType = Header_Get (Header r) ''Content-Type'';
          idx = Index contentType CHR '';''
      in if idx \<noteq> -1 then take (nat idx) contentType else contentType)"

text \<open>
  The codec \<^verbatim>\<open>ServeHTTP\<close> chooses for a content type: the only codec of the
  map when the content type is empty and the map has one entry, the entry of the
  lower-cased content type otherwise. \<open>None\<close> is the branch that answers 415 and
  returns: no entry, or a nil one.
\<close>

definition chooseCodec :: "stdlib \<Rightarrow> ('c, 'v) Server \<Rightarrow> string \<Rightarrow> 'c option option" where
  "chooseCodec L s contentType =
     (if contentType = '''' \<and> length (codecs s) = 1 then Some (snd (hd (codecs s)))
      else
        (case map_of (codecs s) (ToLower L contentType) of
           Some (Some codec) \<Rightarrow> Some (Some codec)
         | Some None \<Rightarrow> None
         | None \<Rightarrow> None))"

definition ServeHTTP ::
  "stdlib \<Rightarrow> ('c, 'v) codec_env \<Rightarrow> ('c, 'v) Server \<Rightarrow> Request \<Rightarrow> ('c, 'v) event list" where
  "ServeHTTP L E s r =
     (if Verb r \<notin> supportedMethods s
      then defaultErrorResponse s r 405 (MethodNotAllowedError (Verb r))
      else
        (let contentType = contentType_of r in
         case chooseCodec L s contentType of
           None \<Rightarrow> defaultErrorResponse s r 415 (UnsupportedMediaTypeError contentType)
         | Some codec \<Rightarrow> serveCodec E s r codec))"

section \<open>The notions of the specification\<close>

text \<open>
  The service name of a registration, in the specification's words: the explicit
  name when it is not empty, the receiver's type name otherwise.
\<close>

definition service_name :: "string \<Rightarrow> 'v Receiver \<Rightarrow> string" where
  "service_name nm r = (if nm \<noteq> '''' then nm else type_Name (Indirect_Type (TypeOf r)))"

text \<open>
  The name check of \<^verbatim>\<open>register\<close> rejects a registration when the service name
  is empty, or when no explicit name is given and the receiver's type name is
  not exported.
\<close>

definition name_rejected :: "stdlib \<Rightarrow> string \<Rightarrow> 'v Receiver \<Rightarrow> bool" where
  "name_rejected L nm r =
     (service_name nm r = '''' \<or> (nm = '''' \<and> \<not> isExported L (service_name nm r)))"

text \<open>
  The specification's kind \<^verbatim>\<open>InvalidServiceName\<close> covers the two errors
  \<^verbatim>\<open>register\<close> returns for a name: the type is not exported, and there is no
  service name.
\<close>

fun InvalidServiceName :: "error \<Rightarrow> bool" where
  "InvalidServiceName (TypeNotExported x) = True"
| "InvalidServiceName (NoServiceName t) = True"
| "InvalidServiceName e = False"

text \<open>
  The shape contract of the specification for one member of the receiver. The
  parameter list of a member is \<open>params\<close>, the receiver excluded. A parameter
  points to a type with a property when it is of pointer kind and its element
  type has the property.

  The payload type of a parameter is the type its pointers lead to: the type at
  the end of the chain of pointers. A type is publicly visible when its name
  begins with an upper-case letter, and built-in when it has no package path
  (a predeclared type, or a type with no name). A parameter is a handle to a
  payload when it is of pointer kind and its payload type is publicly visible
  or built-in. None of this is written with the helpers of the source.
\<close>

definition params :: "'v Method \<Rightarrow> Type list" where
  "params m = tl (In m)"

fun pointee :: "Type \<Rightarrow> Type option" where
  "pointee (PtrType n p e) = Some e"
| "pointee (NonPtrType k n p) = None"

definition points_to :: "(Type \<Rightarrow> bool) \<Rightarrow> Type \<Rightarrow> bool" where
  "points_to P t = (case pointee t of Some e \<Rightarrow> P e | None \<Rightarrow> False)"

fun payload_type :: "Type \<Rightarrow> Type" where
  "payload_type (PtrType n p e) = payload_type e"
| "payload_type (NonPtrType k n p) = NonPtrType k n p"

definition publicly_visible :: "stdlib \<Rightarrow> Type \<Rightarrow> bool" where
  "publicly_visible L t = IsUpper L (DecodeRuneInString L (type_Name t))"

definition builtin :: "Type \<Rightarrow> bool" where
  "builtin t = (type_PkgPath t = '''')"

definition payload_handle :: "stdlib \<Rightarrow> Type \<Rightarrow> bool" where
  "payload_handle L t =
     (pointee t \<noteq> None \<and>
      (publicly_visible L (payload_type t) \<or> builtin (payload_type t)))"

definition shape_contract :: "stdlib \<Rightarrow> bool \<Rightarrow> 'v Method \<Rightarrow> bool" where
  "shape_contract L pr m =
     (PkgPath m = '''' \<and>
      length (params m) = (if pr then 3 else 2) \<and>
      (pr \<longrightarrow> points_to (\<lambda>e. e = typeOfRequest) (params m ! 0)) \<and>
      payload_handle L (params m ! (if pr then 1 else 0)) \<and>
      payload_handle L (params m ! (if pr then 2 else 1)) \<and>
      Out m = [typeOfError])"

text \<open>The descriptor the table holds for a member that meets the contract.\<close>

definition descriptor :: "bool \<Rightarrow> 'v Method \<Rightarrow> 'v serviceMethod" where
  "descriptor pr m =
     \<lparr>smethod = m,
      argsType = the (pointee (params m ! (if pr then 1 else 0))),
      replyType = the (pointee (params m ! (if pr then 2 else 1)))\<rparr>"

text \<open>
  The request the steps after the intercept hook work on, in the specification's
  words: the hook's replacement when a hook is registered and returns one, the
  original request otherwise.
\<close>

definition effective_request :: "('c, 'v) Server \<Rightarrow> string \<Rightarrow> Request \<Rightarrow> Request" where
  "effective_request s mname r =
     (case interceptFunc s of
        None \<Rightarrow> r
      | Some f \<Rightarrow>
          (case f \<lparr>info_Method = mname, info_Error = None, info_Request = r,
                   info_StatusCode = 0\<rparr> of
             None \<Rightarrow> r
           | Some replacement \<Rightarrow> replacement))"

text \<open>
  The outcome of a request once its codec is chosen, by the states of the
  specification's lifecycle: each state is an exit on failure.
\<close>

datatype outcome =
    MethodNameFailure
  | ResolutionFailure
  | ArgumentDecodeFailure
  | MethodReturnedError
  | ReplyEncodeFailure
  | Success

definition outcome_of ::
  "('c, 'v) codec_env \<Rightarrow> ('c, 'v) Server \<Rightarrow> Request \<Rightarrow> 'c \<Rightarrow> outcome" where
  "outcome_of E s r c =
     (case codec_Method E (c, r) of
        (mname, Some e) \<Rightarrow> MethodNameFailure
      | (mname, None) \<Rightarrow>
          (case get (registry s) mname of
             Inl e \<Rightarrow> ResolutionFailure
           | Inr (svc, sm) \<Rightarrow>
               (case codec_ReadRequest E (c, r) (argsType sm) of
                  (args, Some e) \<Rightarrow> ArgumentDecodeFailure
                | (args, None) \<Rightarrow>
                    (case Func (smethod sm)
                            (if passReq svc then Some (effective_request s mname r) else None)
                            args of
                       (reply, Some e) \<Rightarrow> MethodReturnedError
                     | (reply, None) \<Rightarrow>
                         (case codec_WriteResponse E (c, r) reply of
                            Some e \<Rightarrow> ReplyEncodeFailure
                          | None \<Rightarrow> Success)))))"

text \<open>
  What a trace shows: the statuses written with \<^verbatim>\<open>WriteHeader\<close>, the arguments
  of the hooks, the calls of service methods, the error envelopes and the codec
  requests that were made. The status of the response is the first one written,
  and 200 when the handler writes none (the rule of \<^verbatim>\<open>net/http\<close>); a handler
  that panics sends no response.
\<close>

fun statuses :: "('c, 'v) event list \<Rightarrow> nat list" where
  "statuses [] = []"
| "statuses (WriteHeader st # tr) = st # statuses tr"
| "statuses (e # tr) = statuses tr"

definition http_status :: "('c, 'v) event list \<Rightarrow> nat option" where
  "http_status tr =
     (if Panic \<in> set tr then None
      else Some (case statuses tr of [] \<Rightarrow> 200 | st # sts \<Rightarrow> st))"

fun before_infos :: "('c, 'v) event list \<Rightarrow> RequestInfo list" where
  "before_infos [] = []"
| "before_infos (BeforeFunc i # tr) = i # before_infos tr"
| "before_infos (e # tr) = before_infos tr"

fun after_infos :: "('c, 'v) event list \<Rightarrow> RequestInfo list" where
  "after_infos [] = []"
| "after_infos (AfterFunc i # tr) = i # after_infos tr"
| "after_infos (e # tr) = after_infos tr"

fun calls :: "('c, 'v) event list \<Rightarrow> (string \<times> string \<times> Request option \<times> 'v) list" where
  "calls [] = []"
| "calls (Call sn mn q a # tr) = (sn, mn, q, a) # calls tr"
| "calls (e # tr) = calls tr"

fun error_writes :: "('c, 'v) event list \<Rightarrow> ('c CodecRequest \<times> error) list" where
  "error_writes [] = []"
| "error_writes (WriteErrorResponse cr e # tr) = (cr, e) # error_writes tr"
| "error_writes (e # tr) = error_writes tr"

fun codec_requests :: "('c, 'v) event list \<Rightarrow> 'c CodecRequest list" where
  "codec_requests [] = []"
| "codec_requests (NewRequest c q # tr) = (c, q) # codec_requests tr"
| "codec_requests (e # tr) = codec_requests tr"

text \<open>
  The steps of the RPC proper: reading the method name and the arguments, the
  hooks, the call and the reply.
\<close>

fun rpc_step :: "('c, 'v) event \<Rightarrow> bool" where
  "rpc_step (CodecMethod cr) = True"
| "rpc_step (ReadRequest cr t) = True"
| "rpc_step (InterceptFunc i) = True"
| "rpc_step (BeforeFunc i) = True"
| "rpc_step (Call sn mn q a) = True"
| "rpc_step (WriteResponse cr v) = True"
| "rpc_step (AfterFunc i) = True"
| "rpc_step e = False"

text \<open>
  The service that a registration has built when it reaches the mutex: the
  service name, the receiver, and the method table of the loop.
\<close>

definition new_service :: "stdlib \<Rightarrow> 'v Receiver \<Rightarrow> string \<Rightarrow> bool \<Rightarrow> 'v service" where
  "new_service L r nm pr =
     \<lparr>name = service_name nm r, rcvr = r, rcvrType = TypeOf r,
      methods = register_methods L pr [] r, passReq = pr\<rparr>"

text \<open>
  Mutual exclusion, read off the operations of a run: every \<^verbatim>\<open>Lock\<close> is made
  while no goroutine holds the mutex, and every other operation is made by the
  goroutine that holds it. \<open>exclusion h tr\<close> is \<open>None\<close> when \<open>tr\<close>, started with
  the holder \<open>h\<close>, breaks this, and the holder at the end otherwise.
\<close>

fun exclusion :: "nat option \<Rightarrow> (nat \<times> sync_event) list \<Rightarrow> nat option option" where
  "exclusion h [] = Some h"
| "exclusion h ((t, e) # tr) =
     (if e = Lock then (if h = None then exclusion (Some t) tr else None)
      else if h \<noteq> Some t then None
      else if e = Unlock then exclusion None tr
      else exclusion h tr)"

text \<open>
  The positions between \<^verbatim>\<open>Lock\<close> and \<^verbatim>\<open>Unlock\<close>; the positions of a goroutine
  that has stored its service; the error of one that has found the name taken.
\<close>

fun inside :: "position \<Rightarrow> bool" where
  "inside AtCheck = True"
| "inside AtStore = True"
| "inside (AtUnlock e) = True"
| "inside p = False"

fun succeeded :: "position \<Rightarrow> bool" where
  "succeeded (AtUnlock None) = True"
| "succeeded (Done None) = True"
| "succeeded p = False"

fun failed :: "position \<Rightarrow> error option" where
  "failed (AtUnlock (Some e)) = Some e"
| "failed (Done (Some e)) = Some e"
| "failed p = None"

text \<open>
  What holds of every configuration reached from the registry \<open>m0\<close>: the
  goroutine between \<^verbatim>\<open>Lock\<close> and \<^verbatim>\<open>Unlock\<close> is the holder of the mutex; at the
  assignment the map is made and has no entry for the name; a goroutine that
  has stored its service found the name free in \<open>m0\<close>, and its service is the
  entry for the name; a goroutine that fails found an entry; no two goroutines
  have stored under one name; the entries of \<open>m0\<close> are as they were.
\<close>

definition inv :: "(nat \<Rightarrow> 'v service) \<Rightarrow> 'v serviceMap \<Rightarrow> 'v config \<Rightarrow> bool" where
  "inv svc m0 c =
     ((\<forall>t. inside (pos c t) = (holder c = Some t)) \<and>
      (\<forall>t. pos c t = AtStore \<longrightarrow>
         services (shared c) \<noteq> None \<and> services_at (shared c) (name (svc t)) = None) \<and>
      (\<forall>t. pos c t = AtStore \<or> succeeded (pos c t) \<longrightarrow> services_at m0 (name (svc t)) = None) \<and>
      (\<forall>t. succeeded (pos c t) \<longrightarrow> services_at (shared c) (name (svc t)) = Some (svc t)) \<and>
      (\<forall>t e. failed (pos c t) = Some e \<longrightarrow>
         e = ServiceAlreadyDefined (name (svc t)) \<and>
         services_at (shared c) (name (svc t)) \<noteq> None) \<and>
      (\<forall>t u. t \<noteq> u \<and> succeeded (pos c t) \<and> succeeded (pos c u) \<longrightarrow>
         name (svc t) \<noteq> name (svc u)) \<and>
      (\<forall>k s. services_at m0 k = Some s \<longrightarrow> services_at (shared c) k = Some s))"

section \<open>Concrete inputs\<close>

text \<open>
  Tables for the inputs below, which are ASCII throughout: no entry of these
  tables is ever read.
\<close>

definition ascii_tables :: stdlib where
  "ascii_tables =
     \<lparr>decode_multibyte = (\<lambda>s. RuneError), upper_above_latin1 = (\<lambda>r. False),
      lower_non_ascii = (\<lambda>s. s)\<rparr>"

definition ptr :: "Type \<Rightarrow> Type" where
  "ptr t = PtrType '''' '''' t"

text \<open>
  \<^verbatim>\<open>func (c *Calc) Add(r *http.Request, args *Args, reply *Reply) error\<close>,
  \<^verbatim>\<open>func (c *Calc) Fail(r *http.Request, args *Args, reply *Reply) error\<close>, which
  returns an error, and \<^verbatim>\<open>func (c *Calc) Reset()\<close>. Arguments and replies are
  numbers; \<open>Add\<close> replies with the address of the request it is given plus its
  argument.
\<close>

definition Add :: "nat Method" where
  "Add =
     \<lparr>Name = ''Add'', PkgPath = '''',
      In = [ptr (NonPtrType Struct ''Calc'' ''main''), ptr typeOfRequest,
            ptr (NonPtrType Struct ''Args'' ''main''),
            ptr (NonPtrType Struct ''Reply'' ''main'')],
      Out = [typeOfError],
      Func = (\<lambda>req a. (case req of None \<Rightarrow> a | Some q \<Rightarrow> addr q + a, None))\<rparr>"

definition Fail :: "nat Method" where
  "Fail =
     \<lparr>Name = ''Fail'', PkgPath = '''',
      In = [ptr (NonPtrType Struct ''Calc'' ''main''), ptr typeOfRequest,
            ptr (NonPtrType Struct ''Args'' ''main''),
            ptr (NonPtrType Struct ''Reply'' ''main'')],
      Out = [typeOfError],
      Func = (\<lambda>req a. (0, Some (Application ''failed'')))\<rparr>"

definition Reset :: "nat Method" where
  "Reset =
     \<lparr>Name = ''Reset'', PkgPath = '''',
      In = [ptr (NonPtrType Struct ''Calc'' ''main'')],
      Out = [],
      Func = (\<lambda>req a. (0, None))\<rparr>"

definition Calc :: "nat Receiver" where
  "Calc =
     \<lparr>TypeOf = ptr (NonPtrType Struct ''Calc'' ''main''), Methods = [Add, Fail, Reset]\<rparr>"

text \<open>
  Three methods that differ from \<open>Add\<close> in the type of the arguments only:
  \<^verbatim>\<open>*hidden\<close> and \<^verbatim>\<open>**hidden\<close>, for a struct \<^verbatim>\<open>hidden\<close> of the package
  \<^verbatim>\<open>main\<close>, and \<^verbatim>\<open>*string\<close>. \<open>Vault\<close> is a receiver with these three.
\<close>

definition Hide :: "nat Method" where
  "Hide =
     \<lparr>Name = ''Hide'', PkgPath = '''',
      In = [ptr (NonPtrType Struct ''Vault'' ''main''), ptr typeOfRequest,
            ptr (NonPtrType Struct ''hidden'' ''main''),
            ptr (NonPtrType Struct ''Reply'' ''main'')],
      Out = [typeOfError],
      Func = (\<lambda>req a. (a, None))\<rparr>"

definition Deep :: "nat Method" where
  "Deep =
     \<lparr>Name = ''Deep'', PkgPath = '''',
      In = [ptr (NonPtrType Struct ''Vault'' ''main''), ptr typeOfRequest,
            ptr (ptr (NonPtrType Struct ''hidden'' ''main'')),
            ptr (NonPtrType Struct ''Reply'' ''main'')],
      Out = [typeOfError],
      Func = (\<lambda>req a. (a, None))\<rparr>"

definition Count :: "nat Method" where
  "Count =
     \<lparr>Name = ''Count'', PkgPath = '''',
      In = [ptr (NonPtrType Struct ''Vault'' ''main''), ptr typeOfRequest,
            ptr (NonPtrType String ''string'' ''''),
            ptr (NonPtrType Struct ''Reply'' ''main'')],
      Out = [typeOfError],
      Func = (\<lambda>req a. (a, None))\<rparr>"

definition Vault :: "nat Receiver" where
  "Vault =
     \<lparr>TypeOf = ptr (NonPtrType Struct ''Vault'' ''main''), Methods = [Hide, Deep, Count]\<rparr>"

text \<open>A receiver of the unexported type \<^verbatim>\<open>idle\<close> whose only method is \<^verbatim>\<open>Reset\<close>.\<close>

definition Idle :: "nat Receiver" where
  "Idle = \<lparr>TypeOf = ptr (NonPtrType Struct ''idle'' ''main''), Methods = [Reset]\<rparr>"

text \<open>The registry after \<^verbatim>\<open>register(new(Calc), "", true)\<close> on a new one.\<close>

definition calc_registry :: "nat serviceMap" where
  "calc_registry = fst (snd (register ascii_tables \<lparr>services = None\<rparr> Calc '''' True))"

text \<open>
  Two goroutines that register under the name \<open>''Calc''\<close>: the first one
  \<open>Calc\<close> with no explicit name, every other one \<open>Vault\<close> with the explicit name.
\<close>

definition racers :: "nat \<Rightarrow> nat service" where
  "racers u =
     (if u = 0 then new_service ascii_tables Calc '''' True
      else new_service ascii_tables Vault ''Calc'' True)"

text \<open>
  Two codecs, \<open>''json''\<close> and \<open>''xml''\<close>. Each reads the method name from the
  header \<^verbatim>\<open>X-Method\<close> of the request and decodes the number 2 as the arguments;
  the second fails to encode a reply.
\<close>

definition demo_env :: "(string, nat) codec_env" where
  "demo_env =
     \<lparr>codec_Method = (\<lambda>cr. (Header_Get (Header (snd cr)) ''X-Method'', None)),
      codec_ReadRequest = (\<lambda>cr t. (2, None)),
      codec_WriteResponse =
        (\<lambda>cr v. if fst cr = ''xml'' then Some ''cannot encode'' else None)\<rparr>"

text \<open>An intercept hook that replaces the request by one at address 40.\<close>

definition demo_intercept :: "RequestInfo \<Rightarrow> Request option" where
  "demo_intercept i = Some ((info_Request i)\<lparr>addr := 40\<rparr>)"

text \<open>
  A server made with the default codec \<open>''json''\<close>, the two codecs registered,
  the service \<^verbatim>\<open>Calc\<close> and the three hooks.
\<close>

definition demo_server :: "(string, nat) Server" where
  "demo_server =
     RegisterAfterFunc
       (RegisterBeforeFunc
          (RegisterInterceptFunc
             (snd (RegisterService ascii_tables
                (RegisterCodec ascii_tables
                   (RegisterCodec ascii_tables (NewServer (Some ''json''))
                      (Some ''json'') ''application/json'')
                   (Some ''xml'') ''application/xml'')
                Calc ''''))
             (Some demo_intercept))
          (Some (\<lambda>i. ())))
       (Some (\<lambda>i. ()))"

text \<open>
  A server with two codecs, the first registered for the empty content type.
\<close>

definition bare_server :: "(string, nat) Server" where
  "bare_server =
     RegisterCodec ascii_tables
       (RegisterCodec ascii_tables (NewServer (Some ''json'')) (Some ''xml'') '''')
       (Some ''json'') ''application/json''"

definition post :: "string \<Rightarrow> string \<Rightarrow> Request" where
  "post contentType mname =
     \<lparr>addr = 1, Verb = ''POST'',
      Header = [(''Content-Type'', [contentType]), (''X-Method'', [mname])]\<rparr>"

text \<open>
  The steps of \<^verbatim>\<open>ServeHTTP\<close> from the intercept hook to the call of the method,
  written with the effective request.
\<close>

definition call_steps ::
  "('c, 'v) Server \<Rightarrow> Request \<Rightarrow> string \<Rightarrow> 'v service \<Rightarrow> 'v serviceMethod \<Rightarrow> 'v \<Rightarrow>
   ('c, 'v) event list" where
  "call_steps s r mn svc sm args =
     (case interceptFunc s of
        None \<Rightarrow> []
      | Some f \<Rightarrow> [InterceptFunc \<lparr>info_Method = mn, info_Error = None, info_Request = r,
                                info_StatusCode = 0\<rparr>]) @
     (case beforeFunc s of
        None \<Rightarrow> []
      | Some f \<Rightarrow> [BeforeFunc \<lparr>info_Method = mn, info_Error = None,
                             info_Request = effective_request s mn r, info_StatusCode = 0\<rparr>]) @
     [Call (name svc) (Name (smethod sm))
        (if passReq svc then Some (effective_request s mn r) else None) args]"

text \<open>A server with one codec.\<close>

definition single_server :: "(string, nat) Server" where
  "single_server =
     RegisterCodec ascii_tables (NewServer (Some ''json'')) (Some ''json'') ''application/json''"

text \<open>A request with no header at all.\<close>

definition bare_request :: Request where
  "bare_request = \<lparr>addr = 1, Verb = ''POST'', Header = []\<rparr>"

section \<open>Splitting a dotted name\<close>

lemma length_Split: "length (Split s c) = Suc (count_list s c)"
  by (induction s) (auto split: list.splits)

lemma Split_none: "count_list s c = 0 \<Longrightarrow> Split s c = [s]"
  by (induction s) (auto split: list.splits if_splits)

lemma Split_two:
  "count_list s c = 1 \<Longrightarrow>
   Split s c = [takeWhile (\<lambda>x. x \<noteq> c) s, tl (dropWhile (\<lambda>x. x \<noteq> c) s)]"
  by (induction s) (auto simp: Split_none split: list.splits if_splits)

section \<open>The method table\<close>

lemma length_tl_eq: "(length (tl xs) = n) = (length xs = Suc n \<or> (xs = [] \<and> n = 0))"
  by (cases xs) auto

text \<open>
  The helper of the source accepts a type exactly when its payload type is
  publicly visible or built-in.
\<close>

lemma isExportedOrBuiltin_payload:
  "isExportedOrBuiltin L t = (publicly_visible L (payload_type t) \<or> builtin (payload_type t))"
  by (induction t) (simp_all add: publicly_visible_def builtin_def isExported_def)

text \<open>
  One round of the loop adds the descriptor of the member when the member meets
  the shape contract, and nothing otherwise.
\<close>

lemma register_method_eq:
  "register_method L pr ms m =
     (if shape_contract L pr m then AList.update (Name m) (descriptor pr m) ms else ms)"
proof (cases pr)
  case True
  show ?thesis
  proof (cases "length (In m) = 4")
    case False
    with True show ?thesis
      by (auto simp: register_method_def shape_contract_def params_def length_tl_eq)
  next
    case l: True
    then obtain t0 t1 t2 t3 where "In m = [t0, t1, t2, t3]"
      by (auto simp: length_Suc_conv numeral_eq_Suc)
    with True show ?thesis
      by (cases t1; cases t2; cases t3)
         (auto simp: register_method_def shape_contract_def params_def points_to_def
            payload_handle_def isExportedOrBuiltin_payload descriptor_def length_Suc_conv)
  qed
next
  case False
  show ?thesis
  proof (cases "length (In m) = 3")
    case l: False
    with False show ?thesis
      by (auto simp: register_method_def shape_contract_def params_def length_tl_eq)
  next
    case l: True
    then obtain t0 t1 t2 where "In m = [t0, t1, t2]"
      by (auto simp: length_Suc_conv numeral_eq_Suc)
    with False show ?thesis
      by (cases t1; cases t2)
         (auto simp: register_method_def shape_contract_def params_def points_to_def
            payload_handle_def isExportedOrBuiltin_payload descriptor_def length_Suc_conv)
  qed
qed






lemma update_not_Nil: "AList.update k v al \<noteq> []"
  by (cases al) auto

lemma register_methods_Nil:
  "(foldl (register_method L pr) ms xs = []) =
     (ms = [] \<and> (\<forall>m \<in> set xs. \<not> shape_contract L pr m))"
  by (induction xs arbitrary: ms) (auto simp: register_method_eq update_not_Nil)





section \<open>Registration, case by case\<close>

text \<open>
  \<^verbatim>\<open>register\<close> by its exits, in the order of the code: the name, the method
  table, the duplicate, the insertion.
\<close>

lemma register_cases:
  "register L m r nm pr =
     (if name_rejected L nm r
      then (Some (if nm = '''' \<and> \<not> isExported L (service_name nm r)
                  then TypeNotExported (service_name nm r) else NoServiceName (TypeOf r)), m, [])
      else if \<forall>x \<in> set (Methods r). \<not> shape_contract L pr x
      then (Some (NoSuitableMethods (service_name nm r)), m, [])
      else
        (let s = \<lparr>name = service_name nm r, rcvr = r, rcvrType = TypeOf r,
                  methods = register_methods L pr [] r, passReq = pr\<rparr> in
         case services m of
           None \<Rightarrow> (None, m\<lparr>services := Some [(service_name nm r, s)]\<rparr>,
                     [Lock, MakeMap, Store (service_name nm r), Unlock])
         | Some sv \<Rightarrow>
             if services_at m (service_name nm r) \<noteq> None
             then (Some (ServiceAlreadyDefined (service_name nm r)), m,
                   [Lock, Lookup (service_name nm r), Unlock])
             else (None, m\<lparr>services := Some (AList.update (service_name nm r) s sv)\<rparr>,
                   [Lock, Lookup (service_name nm r), Store (service_name nm r), Unlock])))"
  by (auto simp: register_def service_name_def name_rejected_def Let_def register_methods_def
        register_methods_Nil services_at_def split: option.splits)


lemma fst_register:
  "fst (register L m r nm pr) =
     (if name_rejected L nm r
      then Some (if nm = '''' \<and> \<not> isExported L (service_name nm r)
                 then TypeNotExported (service_name nm r) else NoServiceName (TypeOf r))
      else if \<forall>x \<in> set (Methods r). \<not> shape_contract L pr x
      then Some (NoSuitableMethods (service_name nm r))
      else if services_at m (service_name nm r) \<noteq> None
      then Some (ServiceAlreadyDefined (service_name nm r))
      else None)"
  by (cases "name_rejected L nm r";
      cases "\<forall>x \<in> set (Methods r). \<not> shape_contract L pr x"; cases "services m";
      cases "services_at m (service_name nm r) = None";
      simp add: register_cases services_at_def)

lemma register_failure:
  "fst (register L m r nm pr) \<noteq> None \<Longrightarrow> fst (snd (register L m r nm pr)) = m"
  by (cases "name_rejected L nm r";
      cases "\<forall>x \<in> set (Methods r). \<not> shape_contract L pr x"; cases "services m";
      cases "services_at m (service_name nm r) = None";
      simp add: register_cases services_at_def)

lemma register_success:
  "fst (register L m r nm pr) = None \<Longrightarrow>
   services_at (fst (snd (register L m r nm pr))) (service_name nm r) =
     Some \<lparr>name = service_name nm r, rcvr = r, rcvrType = TypeOf r,
           methods = register_methods L pr [] r, passReq = pr\<rparr>"
  by (cases "name_rejected L nm r";
      cases "\<forall>x \<in> set (Methods r). \<not> shape_contract L pr x"; cases "services m";
      cases "services_at m (service_name nm r) = None";
      simp add: register_cases services_at_def update_conv')

lemma register_events:
  "snd (snd (register L m r nm pr)) =
     (if fst (register L m r nm pr) = None
      then (if services m = None then [Lock, MakeMap, Store (service_name nm r), Unlock]
            else [Lock, Lookup (service_name nm r), Store (service_name nm r), Unlock])
      else if fst (register L m r nm pr) = Some (ServiceAlreadyDefined (service_name nm r))
      then [Lock, Lookup (service_name nm r), Unlock]
      else [])"
  by (cases "name_rejected L nm r";
      cases "\<forall>x \<in> set (Methods r). \<not> shape_contract L pr x"; cases "services m";
      cases "services_at m (service_name nm r) = None";
      simp add: register_cases services_at_def)

lemma register_none_suitable:
  "\<forall>x \<in> set (Methods r). \<not> shape_contract L pr x \<Longrightarrow>
   register L m r nm pr =
     (Some (if name_rejected L nm r
            then (if nm = '''' \<and> \<not> isExported L (service_name nm r)
                  then TypeNotExported (service_name nm r) else NoServiceName (TypeOf r))
            else NoSuitableMethods (service_name nm r)), m, [])"
  by (cases "name_rejected L nm r"; simp add: register_cases)

lemmas ex_defs = register_def register_methods_def register_method_def Calc_def Idle_def Add_def
  Fail_def Reset_def ptr_def typeOfRequest_def typeOfError_def isExported_def IsUpper_def
  DecodeRuneInString_def RuneSelf_def MaxLatin1_def Let_def ascii_tables_def

lemmas sc_defs = shape_contract_def params_def points_to_def payload_handle_def
  publicly_visible_def builtin_def

section \<open>The locked part under every schedule\<close>

lemma inv_start: "inv svc m (start m)"
  by (simp add: inv_def start_def)

lemma services_at_update:
  "services m = Some sv \<Longrightarrow>
   services_at (m\<lparr>services := Some (AList.update k v sv)\<rparr>) k' =
     (if k' = k then Some v else services_at m k')"
  by (simp add: services_at_def update_conv')

lemma services_at_make:
  "services m = None \<Longrightarrow> services_at m k = None"
  "services_at (m\<lparr>services := Some []\<rparr>) k = None"
  by (simp_all add: services_at_def)

lemma inv_Lock:
  assumes "inv svc m0 c" "pos c t = AtLock" "holder c = None"
  shows "inv svc m0 (c\<lparr>holder := Some t, pos := (pos c)(t := AtCheck),
                       trace := trace c @ [(t, Lock)]\<rparr>)"
  using assms unfolding inv_def
  by (auto)


lemma inv_MakeMap:
  assumes "inv svc m0 c" "pos c t = AtCheck" "services (shared c) = None"
  shows "inv svc m0 (c\<lparr>shared := (shared c)\<lparr>services := Some []\<rparr>,
                       pos := (pos c)(t := AtStore), trace := trace c @ [(t, MakeMap)]\<rparr>)"
proof -
  have none: "services_at (shared c) k = None" for k
    using assms(3) by (simp add: services_at_def)
  have none': "services_at ((shared c)\<lparr>services := Some []\<rparr>) k = None" for k
    by (simp add: services_at_def)
  show ?thesis
    using assms(1,2) unfolding inv_def
    by (auto simp: none none')
qed

lemma inv_Found:
  assumes "inv svc m0 c" "pos c t = AtCheck" "services (shared c) = Some sv"
    "map_of sv (name (svc t)) = Some old"
  shows "inv svc m0 (c\<lparr>pos := (pos c)(t := AtUnlock (Some (ServiceAlreadyDefined (name (svc t))))),
                       trace := trace c @ [(t, Lookup (name (svc t)))]\<rparr>)"
proof -
  have here: "services_at (shared c) (name (svc t)) = Some old"
    using assms(3,4) by (simp add: services_at_def)
  show ?thesis
    using assms(1,2) here unfolding inv_def
    by (auto)
qed

lemma inv_Free:
  assumes "inv svc m0 c" "pos c t = AtCheck" "services (shared c) = Some sv"
    "map_of sv (name (svc t)) = None"
  shows "inv svc m0 (c\<lparr>pos := (pos c)(t := AtStore),
                       trace := trace c @ [(t, Lookup (name (svc t)))]\<rparr>)"
proof -
  have here: "services_at (shared c) (name (svc t)) = None"
    using assms(3,4) by (simp add: services_at_def)
  have m0: "services_at m0 (name (svc t)) = None"
  proof (cases "services_at m0 (name (svc t))")
    case (Some s)
    then have "services_at (shared c) (name (svc t)) = Some s"
      using assms(1) unfolding inv_def by blast
    then show ?thesis using here by simp
  qed simp
  show ?thesis
    using assms(1,2,3) here m0 unfolding inv_def
    by (auto)
qed

lemma inv_Store:
  assumes "inv svc m0 c" "pos c t = AtStore" "services (shared c) = Some sv"
  shows "inv svc m0 (c\<lparr>shared := (shared c)\<lparr>services := Some (AList.update (name (svc t)) (svc t) sv)\<rparr>,
                       pos := (pos c)(t := AtUnlock None),
                       trace := trace c @ [(t, Store (name (svc t)))]\<rparr>)"
proof -
  have upd: "services_at ((shared c)\<lparr>services := Some (AList.update (name (svc t)) (svc t) sv)\<rparr>) k =
      (if k = name (svc t) then Some (svc t) else services_at (shared c) k)" for k
    using assms(3) by (simp add: services_at_update)
  have holder: "holder c = Some t"
    using assms(1,2) unfolding inv_def by (metis inside.simps(2))
  have absent: "services_at (shared c) (name (svc t)) = None"
    using assms(1,2) unfolding inv_def by blast
  have others: "pos c u \<noteq> AtStore \<and> pos c u \<noteq> AtCheck \<and> (\<forall>e. pos c u \<noteq> AtUnlock e)"
    if "u \<noteq> t" for u
  proof -
    have "\<not> inside (pos c u)"
      using assms(1) holder that unfolding inv_def by auto
    then show ?thesis
      by (cases "pos c u") simp_all
  qed
  show ?thesis
    using assms(1,2) absent others unfolding inv_def
    by (auto simp: upd)
qed

lemma inv_Unlock:
  assumes "inv svc m0 c" "pos c t = AtUnlock e"
  shows "inv svc m0 (c\<lparr>holder := None, pos := (pos c)(t := Done e),
                       trace := trace c @ [(t, Unlock)]\<rparr>)"
proof -
  have holder: "holder c = Some t"
    using assms(1,2) unfolding inv_def by (metis inside.simps(3))
  have others: "pos c u \<noteq> AtStore \<and> pos c u \<noteq> AtCheck \<and> (\<forall>e. pos c u \<noteq> AtUnlock e)"
    if "u \<noteq> t" for u
  proof -
    have "\<not> inside (pos c u)"
      using assms(1) holder that unfolding inv_def by auto
    then show ?thesis
      by (cases "pos c u") simp_all
  qed
  have s: "succeeded (Done e) = succeeded (AtUnlock e)" "failed (Done e) = failed (AtUnlock e)"
    by (cases e; simp)+
  show ?thesis
    using assms(1,2) others unfolding inv_def
    by (auto simp: s)
qed

lemma inv_step:
  assumes "inv svc m0 c" "thread_step t (svc t) c = Some c'"
  shows "inv svc m0 c'"
proof (cases "pos c t")
  case AtLock
  then show ?thesis
    using assms inv_Lock [of svc m0 c t]
    by (auto simp: thread_step_def split: if_splits)
next
  case AtCheck
  then show ?thesis
    using assms inv_MakeMap [of svc m0 c t] inv_Found [of svc m0 c t] inv_Free [of svc m0 c t]
    by (auto simp: thread_step_def split: option.splits)
next
  case AtStore
  then show ?thesis
    using assms inv_Store [of svc m0 c t]
    by (auto simp: thread_step_def split: option.splits)
next
  case (AtUnlock e)
  then show ?thesis
    using assms inv_Unlock [of svc m0 c t e]
    by (auto simp: thread_step_def)
next
  case (Done e)
  then show ?thesis
    using assms by (simp add: thread_step_def)
qed

lemma inv_run: "inv svc m0 c \<Longrightarrow> inv svc m0 (run svc sched c)"
  by (induction sched arbitrary: c) (auto simp: inv_step split: option.splits)

lemma inv_reached: "inv svc m (run svc sched (start m))"
  by (rule inv_run) (rule inv_start)


text \<open>Appending one operation to a run checks it against the holder so far.\<close>

lemma exclusion_append:
  "exclusion h (tr @ [x]) =
     (case exclusion h tr of None \<Rightarrow> None | Some h' \<Rightarrow> exclusion h' [x])"
  by (induction h tr rule: exclusion.induct) simp_all

lemma holder_inside:
  assumes "inv svc m0 c" "inside (pos c t)"
  shows "holder c = Some t"
  using assms unfolding inv_def by blast

lemma exclusion_step:
  assumes "inv svc m0 c" "exclusion None (trace c) = Some (holder c)"
    "thread_step t s c = Some c'"
  shows "exclusion None (trace c') = Some (holder c')"
proof (cases "pos c t")
  case AtLock
  then show ?thesis
    using assms(2,3)
    by (auto simp: thread_step_def exclusion_append split: if_splits)
next
  case AtCheck
  with assms(1) have "holder c = Some t"
    by (simp add: holder_inside)
  with AtCheck show ?thesis
    using assms(2,3)
    by (auto simp: thread_step_def exclusion_append split: option.splits)
next
  case AtStore
  with assms(1) have "holder c = Some t"
    by (simp add: holder_inside)
  with AtStore show ?thesis
    using assms(2,3)
    by (auto simp: thread_step_def exclusion_append split: option.splits)
next
  case (AtUnlock e)
  with assms(1) have "holder c = Some t"
    by (simp add: holder_inside)
  with AtUnlock show ?thesis
    using assms(2,3)
    by (auto simp: thread_step_def exclusion_append)
next
  case (Done e)
  then show ?thesis
    using assms(3) by (simp add: thread_step_def)
qed

lemma exclusion_run:
  "inv svc m0 c \<Longrightarrow> exclusion None (trace c) = Some (holder c) \<Longrightarrow>
   exclusion None (trace (run svc sched c)) = Some (holder (run svc sched c))"
proof (induction sched arbitrary: c)
  case Nil
  then show ?case by simp
next
  case (Cons t ts)
  show ?case
  proof (cases "thread_step t (svc t) c")
    case None
    then show ?thesis using Cons by simp
  next
    case (Some c')
    then have "inv svc m0 c'" "exclusion None (trace c') = Some (holder c')"
      using Cons.prems inv_step exclusion_step by blast+
    then show ?thesis
      using Some Cons.IH [of c'] by simp
  qed
qed

lemma exclusion_reached:
  "exclusion None (trace (run svc sched (start m))) = Some (holder (run svc sched (start m)))"
  by (rule exclusion_run [OF inv_start]) (simp add: start_def)

text \<open>
  A registration succeeds on a new registry exactly when it passes the name
  check and the method table is not empty. Scheduled alone, its goroutine makes
  the operations of \<^verbatim>\<open>register\<close>, and ends with its error and its registry.
\<close>

lemma register_alone:
  "fst (register L \<lparr>services = None\<rparr> r nm pr) = None \<longleftrightarrow>
   \<not> name_rejected L nm r \<and> (\<exists>x \<in> set (Methods r). shape_contract L pr x)"
  by (simp add: fst_register services_at_def)

lemma name_new_service: "name (new_service L r nm pr) = service_name nm r"
  by (simp add: new_service_def)

lemma run_alone:
  assumes "fst (register L \<lparr>services = None\<rparr> r nm pr) = None"
  shows "run (\<lambda>u. new_service L r nm pr) [t, t, t, t] (start m) =
     \<lparr>holder = None, shared = fst (snd (register L m r nm pr)),
      pos = (\<lambda>u. AtLock)(t := Done (fst (register L m r nm pr))),
      trace = map (Pair t) (snd (snd (register L m r nm pr)))\<rparr>"
proof -
  from assms have a: "\<not> name_rejected L nm r" "\<not> (\<forall>x \<in> set (Methods r). \<not> shape_contract L pr x)"
    by (simp_all add: register_alone)
  show ?thesis
  proof (cases "services m")
    case None
    then show ?thesis
      using a by (simp add: register_cases thread_step_def start_def name_new_service)
        (simp add: new_service_def)
  next
    case (Some sv)
    show ?thesis
    proof (cases "map_of sv (service_name nm r)")
      case None
      then show ?thesis
        using a Some by (simp add: register_cases thread_step_def start_def name_new_service
            services_at_def) (simp add: new_service_def)
    next
      case (Some old)
      then show ?thesis
        using a \<open>services m = Some sv\<close>
        by (simp add: register_cases thread_step_def start_def name_new_service services_at_def)
    qed
  qed
qed

section \<open>The claims on the registry\<close>



text \<open>
  Claim C2, as amended. \<^verbatim>\<open>get\<close> fails with the malformed-name error exactly
  when the name does not hold exactly one dot. With one dot, the part before it
  and the part after it are looked up, empty or not: the service-not-found error
  when the first names no registered service, the method-not-found error when
  the second names no method of that service, the service and the method
  otherwise.
\<close>

theorem get_by_components:
  "get m mname =
     (if count_list mname CHR ''.'' \<noteq> 1 then Inl (MalformedMethodNameError mname)
      else
        (case services_at m (takeWhile (\<lambda>c. c \<noteq> CHR ''.'') mname) of
           None \<Rightarrow> Inl (ServiceNotFoundError mname)
         | Some svc \<Rightarrow>
             (case map_of (methods svc) (tl (dropWhile (\<lambda>c. c \<noteq> CHR ''.'') mname)) of
                None \<Rightarrow> Inl (MethodNotFoundError mname)
              | Some sm \<Rightarrow> Inr (svc, sm))))"
proof (cases "count_list mname CHR ''.'' = 1")
  case True
  then have "Split mname CHR ''.'' =
      [takeWhile (\<lambda>x. x \<noteq> CHR ''.'') mname, tl (dropWhile (\<lambda>x. x \<noteq> CHR ''.'') mname)]"
    by (rule Split_two)
  then show ?thesis using True by (simp add: get_def Let_def split: option.splits)
next
  case False
  then show ?thesis by (simp add: get_def Let_def length_Split)
qed

text \<open>
  The claim as stated fails on a name with an empty component: with the service
  \<open>Calc\<close> registered, \<open>''Calc.''\<close> gives the method-not-found error and
  \<open>''.Add''\<close> the service-not-found error, neither the malformed-name error.
\<close>

theorem get_empty_component_counterexample:
  "get calc_registry ''Calc.'' = Inl (MethodNotFoundError ''Calc.'') \<and>
   get calc_registry ''.Add'' = Inl (ServiceNotFoundError ''.Add'')"
  by (simp add: calc_registry_def get_def services_at_def ex_defs)

text \<open>
  Claim C3, as amended. The service name is the explicit name when it is not
  empty and the receiver's type name otherwise: a registration that succeeds
  installs the service under that name. \<^verbatim>\<open>register\<close> fails with an error of
  the kind \<^verbatim>\<open>InvalidServiceName\<close> exactly when that name is empty, or no
  explicit name is given and the type name is not exported. An explicit name is
  not checked for being exported.
\<close>

theorem register_service_name:
  "((\<exists>e. fst (register L m r nm pr) = Some e \<and> InvalidServiceName e) =
      (service_name nm r = '''' \<or> (nm = '''' \<and> \<not> isExported L (service_name nm r)))) \<and>
   (fst (register L m r nm pr) = None \<longrightarrow>
      (\<exists>s. services_at (fst (snd (register L m r nm pr))) (service_name nm r) = Some s \<and>
           name s = service_name nm r))"
proof (intro conjI impI)
  have "(\<exists>e. fst (register L m r nm pr) = Some e \<and> InvalidServiceName e) = name_rejected L nm r"
    by (cases "name_rejected L nm r") (simp_all add: fst_register)
  then show "(\<exists>e. fst (register L m r nm pr) = Some e \<and> InvalidServiceName e) =
      (service_name nm r = '''' \<or> (nm = '''' \<and> \<not> isExported L (service_name nm r)))"
    by (simp add: name_rejected_def)
next
  assume "fst (register L m r nm pr) = None"
  then show "\<exists>s. services_at (fst (snd (register L m r nm pr))) (service_name nm r) = Some s \<and>
           name s = service_name nm r"
    by (simp add: register_success)
qed

text \<open>
  The receiver \<open>Calc\<close> with no explicit name: the name is the type name
  \<open>''Calc''\<close>, which is exported, and the service is installed under it.
\<close>

theorem register_service_name_witness:
  "service_name '''' Calc = ''Calc'' \<and>
   isExported ascii_tables ''Calc'' \<and>
   fst (register ascii_tables \<lparr>services = None\<rparr> Calc '''' True) = None \<and>
   (\<exists>s. services_at (fst (snd (register ascii_tables \<lparr>services = None\<rparr> Calc '''' True))) ''Calc''
           = Some s \<and> name s = ''Calc'')"
proof -
  have n: "service_name '''' Calc = ''Calc''"
    by (simp add: service_name_def Calc_def ptr_def)
  have e: "isExported ascii_tables ''Calc''"
    by (simp add: ex_defs)
  have reg: "fst (register ascii_tables \<lparr>services = None\<rparr> Calc '''' True) = None"
    by (simp add: ex_defs)
  from register_service_name [of ascii_tables "\<lparr>services = None\<rparr>" Calc "''''" True] n e reg
  show ?thesis by simp
qed

text \<open>
  The claim as stated fails on an explicit name that is not exported: \<open>Calc\<close>
  is registered under the name \<open>''calc''\<close>.
\<close>

theorem register_explicit_name_counterexample:
  "service_name ''calc'' Calc = ''calc'' \<and>
   \<not> isExported ascii_tables ''calc'' \<and>
   fst (register ascii_tables \<lparr>services = None\<rparr> Calc ''calc'' True) = None"
  by (simp add: service_name_def ex_defs)

text \<open>
  Claim C6. A registration that succeeds on its own (on a new registry), made
  under a name that is in the registry, fails with the already-defined error
  and leaves the registry as it was, so every name resolves as before. The
  check and the insertion are atomic: the locked part of \<^verbatim>\<open>register\<close>, run one
  operation at a time by any number of goroutines under any schedule, and
  agreeing with \<^verbatim>\<open>register\<close> when one goroutine runs alone, keeps mutual
  exclusion on the mutex; a goroutine at the assignment still finds the map
  made and the name free; no two goroutines that return nil have registered
  under one name; a goroutine that returns nil found the name free in the
  registry at the start and its service is the entry for the name at the end;
  a goroutine that returns an error returns the already-defined error, and the
  name has an entry; and the entries of the registry at the start are intact.
\<close>

theorem register_duplicate_name:
  "(fst (register L \<lparr>services = None\<rparr> r nm pr) = None \<and>
    services_at m (service_name nm r) \<noteq> None \<longrightarrow>
      fst (register L m r nm pr) = Some (ServiceAlreadyDefined (service_name nm r)) \<and>
      fst (snd (register L m r nm pr)) = m \<and>
      (\<forall>q. get (fst (snd (register L m r nm pr))) q = get m q)) \<and>
   (fst (register L \<lparr>services = None\<rparr> r nm pr) = None \<longrightarrow>
      run (\<lambda>u. new_service L r nm pr) [t, t, t, t] (start m) =
        \<lparr>holder = None, shared = fst (snd (register L m r nm pr)),
         pos = (\<lambda>u. AtLock)(t := Done (fst (register L m r nm pr))),
         trace = map (Pair t) (snd (snd (register L m r nm pr)))\<rparr>) \<and>
   exclusion None (trace (run svc sched (start m))) = Some (holder (run svc sched (start m))) \<and>
   (\<forall>a. pos (run svc sched (start m)) a = AtStore \<longrightarrow>
      services (shared (run svc sched (start m))) \<noteq> None \<and>
      services_at (shared (run svc sched (start m))) (name (svc a)) = None) \<and>
   (\<forall>a b. a \<noteq> b \<and> pos (run svc sched (start m)) a = Done None \<and>
      pos (run svc sched (start m)) b = Done None \<longrightarrow> name (svc a) \<noteq> name (svc b)) \<and>
   (\<forall>a. pos (run svc sched (start m)) a = Done None \<longrightarrow>
      services_at m (name (svc a)) = None \<and>
      services_at (shared (run svc sched (start m))) (name (svc a)) = Some (svc a)) \<and>
   (\<forall>a e. pos (run svc sched (start m)) a = Done (Some e) \<longrightarrow>
      e = ServiceAlreadyDefined (name (svc a)) \<and>
      services_at (shared (run svc sched (start m))) (name (svc a)) \<noteq> None) \<and>
   (\<forall>k s. services_at m k = Some s \<longrightarrow>
      services_at (shared (run svc sched (start m))) k = Some s)"
proof -
  let ?c = "run svc sched (start m)"
  have i: "inv svc m ?c"
    by (rule inv_reached)
  have 1: "fst (register L m r nm pr) = Some (ServiceAlreadyDefined (service_name nm r)) \<and>
      fst (snd (register L m r nm pr)) = m \<and>
      (\<forall>q. get (fst (snd (register L m r nm pr))) q = get m q)"
    if "fst (register L \<lparr>services = None\<rparr> r nm pr) = None \<and>
        services_at m (service_name nm r) \<noteq> None"
  proof -
    from that have "\<not> name_rejected L nm r" "\<exists>x \<in> set (Methods r). shape_contract L pr x"
      by (simp_all add: register_alone)
    with that have e: "fst (register L m r nm pr) = Some (ServiceAlreadyDefined (service_name nm r))"
      by (simp add: fst_register)
    then have "fst (snd (register L m r nm pr)) = m"
      by (simp add: register_failure)
    with e show ?thesis by simp
  qed
  have 2: "services (shared ?c) \<noteq> None \<and> services_at (shared ?c) (name (svc a)) = None"
    if "pos ?c a = AtStore" for a
    using i that unfolding inv_def by blast
  have 3: "name (svc a) \<noteq> name (svc b)"
    if "a \<noteq> b \<and> pos ?c a = Done None \<and> pos ?c b = Done None" for a b
  proof -
    from that have "a \<noteq> b \<and> succeeded (pos ?c a) \<and> succeeded (pos ?c b)"
      by simp
    with i show ?thesis unfolding inv_def by blast
  qed
  have 4: "services_at m (name (svc a)) = None \<and> services_at (shared ?c) (name (svc a)) = Some (svc a)"
    if "pos ?c a = Done None" for a
  proof -
    from that have "succeeded (pos ?c a)"
      by simp
    with i show ?thesis unfolding inv_def by blast
  qed
  have 5: "e = ServiceAlreadyDefined (name (svc a)) \<and> services_at (shared ?c) (name (svc a)) \<noteq> None"
    if "pos ?c a = Done (Some e)" for a e
  proof -
    from that have "failed (pos ?c a) = Some e"
      by simp
    with i show ?thesis unfolding inv_def by blast
  qed
  have 6: "services_at (shared ?c) k = Some s" if "services_at m k = Some s" for k s
    using i that unfolding inv_def by blast
  show ?thesis
    using 1 2 3 4 5 6 run_alone [of L r nm pr t m] exclusion_reached [of svc sched m]
    by blast
qed

text \<open>
  \<open>Calc\<close> registered a second time with no explicit name: the error, the
  registry as it was, \<open>''Calc.Add''\<close> resolved as before, and the same from
  goroutine 7 running alone. Two goroutines racing for the name \<open>''Calc''\<close> on
  a new registry, goroutine 1 scheduled while goroutine 0 is between its
  check and its assignment: it waits, goroutine 0 returns nil and goroutine 1
  the error, and the entry is the service of goroutine 0. Under a schedule that
  lets goroutine 1 in first, it is the other way round.
\<close>

theorem register_duplicate_name_witness:
  "fst (register ascii_tables \<lparr>services = None\<rparr> Calc '''' True) = None \<and>
   services_at calc_registry ''Calc'' \<noteq> None \<and>
   fst (register ascii_tables calc_registry Calc '''' True) = Some (ServiceAlreadyDefined ''Calc'') \<and>
   fst (snd (register ascii_tables calc_registry Calc '''' True)) = calc_registry \<and>
   (\<exists>svc sm. get (fst (snd (register ascii_tables calc_registry Calc '''' True))) ''Calc.Add'' =
      Inr (svc, sm) \<and> smethod sm = Add) \<and>
   run (\<lambda>u. new_service ascii_tables Calc '''' True) [7, 7, 7, 7] (start calc_registry) =
     \<lparr>holder = None, shared = calc_registry,
      pos = (\<lambda>u. AtLock)(7 := Done (Some (ServiceAlreadyDefined ''Calc''))),
      trace = [(7, Lock), (7, Lookup ''Calc''), (7, Unlock)]\<rparr> \<and>
   name (racers 0) = ''Calc'' \<and> name (racers 1) = ''Calc'' \<and>
   pos (run racers [0, 1, 0, 1, 0, 0, 1, 1, 1] (start \<lparr>services = None\<rparr>)) 0 = Done None \<and>
   pos (run racers [0, 1, 0, 1, 0, 0, 1, 1, 1] (start \<lparr>services = None\<rparr>)) 1 =
     Done (Some (ServiceAlreadyDefined ''Calc'')) \<and>
   services_at (shared (run racers [0, 1, 0, 1, 0, 0, 1, 1, 1] (start \<lparr>services = None\<rparr>))) ''Calc'' =
     Some (racers 0) \<and>
   map fst (trace (run racers [0, 1, 0, 1, 0, 0, 1, 1, 1] (start \<lparr>services = None\<rparr>))) =
     [0, 0, 0, 0, 1, 1, 1] \<and>
   pos (run racers [1, 0, 1, 1, 0, 1, 0, 0, 0] (start \<lparr>services = None\<rparr>)) 1 = Done None \<and>
   pos (run racers [1, 0, 1, 1, 0, 1, 0, 0, 0] (start \<lparr>services = None\<rparr>)) 0 =
     Done (Some (ServiceAlreadyDefined ''Calc'')) \<and>
   services_at (shared (run racers [1, 0, 1, 1, 0, 1, 0, 0, 0] (start \<lparr>services = None\<rparr>))) ''Calc'' =
     Some (racers 1)"
proof -
  let ?c = "run racers [0, 1, 0, 1, 0, 0, 1, 1, 1] (start \<lparr>services = None\<rparr>)"
  let ?d = "run racers [1, 0, 1, 1, 0, 1, 0, 0, 0] (start \<lparr>services = None\<rparr>)"
  have n: "service_name '''' Calc = ''Calc''"
    by (simp add: service_name_def Calc_def ptr_def)
  have nr: "name (racers u) = ''Calc''" for u
    by (simp add: racers_def new_service_def service_name_def Calc_def ptr_def)
  have alone: "fst (register ascii_tables \<lparr>services = None\<rparr> Calc '''' True) = None"
    by (simp add: ex_defs)
  have p: "services_at calc_registry ''Calc'' \<noteq> None"
    by (simp add: calc_registry_def services_at_def ex_defs)
  have g: "\<exists>svc sm. get calc_registry ''Calc.Add'' = Inr (svc, sm) \<and> smethod sm = Add"
    by (simp add: calc_registry_def get_def services_at_def ex_defs)
  have c0: "pos ?c 0 = Done None"
    by (simp add: thread_step_def start_def nr)
  have c1: "pos ?c 1 = Done (Some (ServiceAlreadyDefined ''Calc''))"
    by (simp add: thread_step_def start_def nr)
  have ct: "map fst (trace ?c) = [0, 0, 0, 0, 1, 1, 1]"
    by (simp add: thread_step_def start_def nr)
  have d1: "pos ?d 1 = Done None"
    by (simp add: thread_step_def start_def nr)
  have d0: "pos ?d 0 = Done (Some (ServiceAlreadyDefined ''Calc''))"
    by (simp add: thread_step_def start_def nr)
  note dup = register_duplicate_name [of ascii_tables Calc "''''" True calc_registry 7 racers "[]"]
  have present: "fst (register ascii_tables \<lparr>services = None\<rparr> Calc '''' True) = None \<and>
      services_at calc_registry (service_name '''' Calc) \<noteq> None"
    using alone p by (simp only: n simp_thms)
  note 1 = dup [THEN conjunct1, THEN mp, OF present]
  have e: "fst (register ascii_tables calc_registry Calc '''' True) =
      Some (ServiceAlreadyDefined ''Calc'')"
    using 1 [THEN conjunct1] by (simp only: n)
  note same = 1 [THEN conjunct2, THEN conjunct1]
  have g': "\<exists>svc sm. get (fst (snd (register ascii_tables calc_registry Calc '''' True))) ''Calc.Add'' =
      Inr (svc, sm) \<and> smethod sm = Add"
    using g by (simp only: same)
  have ev: "snd (snd (register ascii_tables calc_registry Calc '''' True)) =
      [Lock, Lookup ''Calc'', Unlock]"
    using e by (simp add: register_events n)
  have solo: "run (\<lambda>u. new_service ascii_tables Calc '''' True) [7, 7, 7, 7] (start calc_registry) =
     \<lparr>holder = None, shared = calc_registry,
      pos = (\<lambda>u. AtLock)(7 := Done (Some (ServiceAlreadyDefined ''Calc''))),
      trace = [(7, Lock), (7, Lookup ''Calc''), (7, Unlock)]\<rparr>"
    using dup [THEN conjunct2, THEN conjunct1, THEN mp, OF alone]
    by (simp only: same e ev list.map)
  note won = register_duplicate_name
    [of ascii_tables Calc "''''" True "\<lparr>services = None\<rparr>" 7 racers,
     THEN conjunct2, THEN conjunct2, THEN conjunct2, THEN conjunct2, THEN conjunct2,
     THEN conjunct1, THEN spec, THEN mp]
  have cs: "services_at (shared ?c) ''Calc'' = Some (racers 0)"
    using won [OF c0, THEN conjunct2] by (simp only: nr)
  have ds: "services_at (shared ?d) ''Calc'' = Some (racers 1)"
    using won [OF d1, THEN conjunct2] by (simp only: nr)
  show ?thesis
    by (intro conjI; (fact alone p e same g' solo nr c0 c1 cs ct d1 d0 ds))
qed

text \<open>
  Claim C7, as amended. When no member of the receiver meets the shape contract,
  the method table stays empty and \<^verbatim>\<open>register\<close> fails: with the error of the
  name check when the name is rejected, which is checked first, and with the
  no-suitable-methods error otherwise. The registry is unchanged and the mutex
  is not touched, so \<^verbatim>\<open>get\<close> and \<^verbatim>\<open>HasMethod\<close> answer as before, through
  \<^verbatim>\<open>RegisterService\<close> and through \<^verbatim>\<open>RegisterTCPService\<close> alike.
\<close>

theorem register_no_suitable_methods:
  "(\<forall>x \<in> set (Methods r). \<not> shape_contract L pr x) \<longrightarrow>
     register_methods L pr [] r = [] \<and>
     register L m r nm pr =
       (Some (if name_rejected L nm r
              then (if nm = '''' \<and> \<not> isExported L (service_name nm r)
                    then TypeNotExported (service_name nm r) else NoServiceName (TypeOf r))
              else NoSuitableMethods (service_name nm r)), m, []) \<and>
     (\<forall>q. get (fst (snd (register L m r nm pr))) q = get m q) \<and>
     snd (if pr then RegisterService L s r nm else RegisterTCPService L s r nm) = s \<and>
     (\<forall>q. HasMethod (snd (if pr then RegisterService L s r nm else RegisterTCPService L s r nm)) q =
          HasMethod s q)"
proof (intro impI)
  assume none: "\<forall>x \<in> set (Methods r). \<not> shape_contract L pr x"
  have srv: "snd (if pr then RegisterService L s r nm else RegisterTCPService L s r nm) = s"
    using none
    by (cases pr) (simp_all add: RegisterService_def RegisterTCPService_def register_none_suitable)
  show "register_methods L pr [] r = [] \<and>
     register L m r nm pr =
       (Some (if name_rejected L nm r
              then (if nm = '''' \<and> \<not> isExported L (service_name nm r)
                    then TypeNotExported (service_name nm r) else NoServiceName (TypeOf r))
              else NoSuitableMethods (service_name nm r)), m, []) \<and>
     (\<forall>q. get (fst (snd (register L m r nm pr))) q = get m q) \<and>
     snd (if pr then RegisterService L s r nm else RegisterTCPService L s r nm) = s \<and>
     (\<forall>q. HasMethod (snd (if pr then RegisterService L s r nm else RegisterTCPService L s r nm)) q =
          HasMethod s q)"
    using none
    by (simp only: srv register_none_suitable [OF none] register_methods_def register_methods_Nil)
       simp
qed

text \<open>
  \<open>Idle\<close> registered under the explicit name \<open>''Idle''\<close> in the registry that
  holds \<open>Calc\<close>: the no-suitable-methods error, the same registry, and no
  service \<open>Idle\<close> to resolve.
\<close>

theorem register_no_suitable_methods_witness:
  "register_methods ascii_tables True [] Idle = [] \<and>
   register ascii_tables calc_registry Idle ''Idle'' True =
     (Some (NoSuitableMethods ''Idle''), calc_registry, []) \<and>
   get (fst (snd (register ascii_tables calc_registry Idle ''Idle'' True))) ''Idle.Reset'' =
     Inl (ServiceNotFoundError ''Idle.Reset'') \<and>
   snd (RegisterService ascii_tables demo_server Idle ''Idle'') = demo_server"
proof -
  have none: "\<forall>x \<in> set (Methods Idle). \<not> shape_contract ascii_tables True x"
    by (simp add: sc_defs ex_defs)
  have n: "service_name ''Idle'' Idle = ''Idle''"
    by (simp add: service_name_def)
  have e: "\<not> name_rejected ascii_tables ''Idle'' Idle"
    by (simp add: name_rejected_def n)
  have g: "get calc_registry ''Idle.Reset'' = Inl (ServiceNotFoundError ''Idle.Reset'')"
    by (simp add: calc_registry_def get_def services_at_def ex_defs)
  from register_no_suitable_methods [of Idle ascii_tables True calc_registry "''Idle''" demo_server]
    none n e g
  show ?thesis by simp
qed

text \<open>
  The claim as stated fails on a receiver of an unexported type registered with
  no explicit name: \<open>Idle\<close> has no suitable method, and the error is that of
  the name check.
\<close>

theorem register_no_suitable_methods_counterexample:
  "register_methods ascii_tables True [] Idle = [] \<and>
   fst (register ascii_tables \<lparr>services = None\<rparr> Idle '''' True) = Some (TypeNotExported ''idle'')"
  by (simp add: ex_defs)

section \<open>The dispatcher, path by path\<close>

lemma statuses_append: "statuses (xs @ ys) = statuses xs @ statuses ys"
  by (induction xs rule: statuses.induct) simp_all

lemma before_infos_append: "before_infos (xs @ ys) = before_infos xs @ before_infos ys"
  by (induction xs rule: before_infos.induct) simp_all

lemma after_infos_append: "after_infos (xs @ ys) = after_infos xs @ after_infos ys"
  by (induction xs rule: after_infos.induct) simp_all

lemma calls_append: "calls (xs @ ys) = calls xs @ calls ys"
  by (induction xs rule: calls.induct) simp_all

lemma error_writes_append: "error_writes (xs @ ys) = error_writes xs @ error_writes ys"
  by (induction xs rule: error_writes.induct) simp_all

lemma hook_events:
  "statuses (case h of None \<Rightarrow> [] | Some f \<Rightarrow> [InterceptFunc i]) = []"
  "statuses (case h of None \<Rightarrow> [] | Some f \<Rightarrow> [BeforeFunc i]) = []"
  "statuses (case h of None \<Rightarrow> [] | Some f \<Rightarrow> [AfterFunc i]) = []"
  "after_infos (case h of None \<Rightarrow> [] | Some f \<Rightarrow> [InterceptFunc i]) = []"
  "after_infos (case h of None \<Rightarrow> [] | Some f \<Rightarrow> [BeforeFunc i]) = []"
  "after_infos (case h of None \<Rightarrow> [] | Some f \<Rightarrow> [AfterFunc i]) = (if h = None then [] else [i])"
  "before_infos (case h of None \<Rightarrow> [] | Some f \<Rightarrow> [InterceptFunc i]) = []"
  "before_infos (case h of None \<Rightarrow> [] | Some f \<Rightarrow> [BeforeFunc i]) = (if h = None then [] else [i])"
  "before_infos (case h of None \<Rightarrow> [] | Some f \<Rightarrow> [AfterFunc i]) = []"
  "calls (case h of None \<Rightarrow> [] | Some f \<Rightarrow> [InterceptFunc i]) = []"
  "calls (case h of None \<Rightarrow> [] | Some f \<Rightarrow> [BeforeFunc i]) = []"
  "calls (case h of None \<Rightarrow> [] | Some f \<Rightarrow> [AfterFunc i]) = []"
  "error_writes (case h of None \<Rightarrow> [] | Some f \<Rightarrow> [InterceptFunc i]) = []"
  "error_writes (case h of None \<Rightarrow> [] | Some f \<Rightarrow> [BeforeFunc i]) = []"
  "error_writes (case h of None \<Rightarrow> [] | Some f \<Rightarrow> [AfterFunc i]) = []"
  by (cases h; simp)+

lemma serveCodec_nil: "serveCodec E s r None = [Panic]"
  by (simp add: serveCodec_def)

lemma serveCodec_method_error:
  "codec_Method E (c, r) = (mn, Some e) \<Longrightarrow>
   serveCodec E s r (Some c) =
     [NewRequest c r, CodecMethod (c, r), WriteHeader 200,
      WriteErrorResponse (c, r) (CodecRequestMethodError e)]"
  by (simp add: serveCodec_def handleErrorResponse_def Let_def)

lemma serveCodec_get_error:
  "codec_Method E (c, r) = (mn, None) \<Longrightarrow> get (registry s) mn = Inl e \<Longrightarrow>
   serveCodec E s r (Some c) =
     [NewRequest c r, CodecMethod (c, r), WriteHeader 200, WriteErrorResponse (c, r) e]"
  by (simp add: serveCodec_def handleErrorResponse_def Let_def)

lemma serveCodec_read_error:
  "codec_Method E (c, r) = (mn, None) \<Longrightarrow> get (registry s) mn = Inr (svc, sm) \<Longrightarrow>
   codec_ReadRequest E (c, r) (argsType sm) = (args, Some e) \<Longrightarrow>
   serveCodec E s r (Some c) =
     [NewRequest c r, CodecMethod (c, r), ReadRequest (c, r) (argsType sm), WriteHeader 200,
      WriteErrorResponse (c, r) (CodecReadRequestError e)]"
  by (simp add: serveCodec_def handleErrorResponse_def Let_def)

lemma serveCodec_called:
  "codec_Method E (c, r) = (mn, None) \<Longrightarrow> get (registry s) mn = Inr (svc, sm) \<Longrightarrow>
   codec_ReadRequest E (c, r) (argsType sm) = (args, None) \<Longrightarrow>
   serveCodec E s r (Some c) =
     [NewRequest c r, CodecMethod (c, r), ReadRequest (c, r) (argsType sm)] @
     call_steps s r mn svc sm args @
     (case Func (smethod sm) (if passReq svc then Some (effective_request s mn r) else None) args of
        (reply, Some e) \<Rightarrow> [WriteHeader 200, WriteErrorResponse (c, r) e]
      | (reply, None) \<Rightarrow>
          [HeaderSet ''x-content-type-options'' ''nosniff'', WriteResponse (c, r) reply] @
          (case codec_WriteResponse E (c, r) reply of
             Some e \<Rightarrow> [WriteHeader 200, WriteErrorResponse (c, r) (CodecWriteResponseError e)]
           | None \<Rightarrow>
               (case afterFunc s of
                  None \<Rightarrow> []
                | Some f \<Rightarrow> [AfterFunc \<lparr>info_Method = mn, info_Error = None,
                     info_Request = effective_request s mn r, info_StatusCode = 200\<rparr>])))"
  by (simp add: serveCodec_def handleErrorResponse_def call_steps_def effective_request_def Let_def
        cong: option.case_cong prod.case_cong)

lemma call_steps_quiet:
  "statuses (call_steps s r mn svc sm args) = []"
  "after_infos (call_steps s r mn svc sm args) = []"
  "error_writes (call_steps s r mn svc sm args) = []"
  "Panic \<notin> set (call_steps s r mn svc sm args)"
  by (cases "interceptFunc s"; cases "beforeFunc s"; simp add: call_steps_def)+

lemma serveCodec_cases [case_names MethodError GetError ReadError CallError WriteError Ok]:
  obtains
    (MethodError) mn e where
      "codec_Method E (c, r) = (mn, Some e)"
      "outcome_of E s r c = MethodNameFailure"
      "serveCodec E s r (Some c) =
         [NewRequest c r, CodecMethod (c, r), WriteHeader 200,
          WriteErrorResponse (c, r) (CodecRequestMethodError e)]"
  | (GetError) mn e where
      "codec_Method E (c, r) = (mn, None)" "get (registry s) mn = Inl e"
      "outcome_of E s r c = ResolutionFailure"
      "serveCodec E s r (Some c) =
         [NewRequest c r, CodecMethod (c, r), WriteHeader 200, WriteErrorResponse (c, r) e]"
  | (ReadError) mn svc sm args e where
      "codec_Method E (c, r) = (mn, None)" "get (registry s) mn = Inr (svc, sm)"
      "codec_ReadRequest E (c, r) (argsType sm) = (args, Some e)"
      "outcome_of E s r c = ArgumentDecodeFailure"
      "serveCodec E s r (Some c) =
         [NewRequest c r, CodecMethod (c, r), ReadRequest (c, r) (argsType sm), WriteHeader 200,
          WriteErrorResponse (c, r) (CodecReadRequestError e)]"
  | (CallError) mn svc sm args reply e where
      "codec_Method E (c, r) = (mn, None)" "get (registry s) mn = Inr (svc, sm)"
      "codec_ReadRequest E (c, r) (argsType sm) = (args, None)"
      "Func (smethod sm) (if passReq svc then Some (effective_request s mn r) else None) args =
         (reply, Some e)"
      "outcome_of E s r c = MethodReturnedError"
      "serveCodec E s r (Some c) =
         [NewRequest c r, CodecMethod (c, r), ReadRequest (c, r) (argsType sm)] @
         call_steps s r mn svc sm args @ [WriteHeader 200, WriteErrorResponse (c, r) e]"
  | (WriteError) mn svc sm args reply e where
      "codec_Method E (c, r) = (mn, None)" "get (registry s) mn = Inr (svc, sm)"
      "codec_ReadRequest E (c, r) (argsType sm) = (args, None)"
      "Func (smethod sm) (if passReq svc then Some (effective_request s mn r) else None) args =
         (reply, None)"
      "codec_WriteResponse E (c, r) reply = Some e"
      "outcome_of E s r c = ReplyEncodeFailure"
      "serveCodec E s r (Some c) =
         [NewRequest c r, CodecMethod (c, r), ReadRequest (c, r) (argsType sm)] @
         call_steps s r mn svc sm args @
         [HeaderSet ''x-content-type-options'' ''nosniff'', WriteResponse (c, r) reply,
          WriteHeader 200, WriteErrorResponse (c, r) (CodecWriteResponseError e)]"
  | (Ok) mn svc sm args reply where
      "codec_Method E (c, r) = (mn, None)" "get (registry s) mn = Inr (svc, sm)"
      "codec_ReadRequest E (c, r) (argsType sm) = (args, None)"
      "Func (smethod sm) (if passReq svc then Some (effective_request s mn r) else None) args =
         (reply, None)"
      "codec_WriteResponse E (c, r) reply = None"
      "outcome_of E s r c = Success"
      "serveCodec E s r (Some c) =
         [NewRequest c r, CodecMethod (c, r), ReadRequest (c, r) (argsType sm)] @
         call_steps s r mn svc sm args @
         [HeaderSet ''x-content-type-options'' ''nosniff'', WriteResponse (c, r) reply] @
         (case afterFunc s of
            None \<Rightarrow> []
          | Some f \<Rightarrow>
              [AfterFunc \<lparr>info_Method = mn, info_Error = None,
                 info_Request = effective_request s mn r, info_StatusCode = 200\<rparr>])"
proof -
  obtain mn em where m: "codec_Method E (c, r) = (mn, em)"
    by (cases "codec_Method E (c, r)")
  show ?thesis
  proof (cases em)
    case (Some e)
    with m show ?thesis
      by (intro MethodError [of mn e]) (simp_all add: serveCodec_method_error outcome_of_def)
  next
    case None
    note m = m [unfolded None]
    show ?thesis
    proof (cases "get (registry s) mn")
      case (Inl e)
      with m show ?thesis
        by (intro GetError [of mn e]) (simp_all add: serveCodec_get_error outcome_of_def)
    next
      case (Inr found)
      then obtain svc sm where g: "get (registry s) mn = Inr (svc, sm)"
        by (cases found) simp
      obtain args er where rd: "codec_ReadRequest E (c, r) (argsType sm) = (args, er)"
        by (cases "codec_ReadRequest E (c, r) (argsType sm)")
      show ?thesis
      proof (cases er)
        case (Some e)
        with m g rd show ?thesis
          by (intro ReadError [of mn svc sm args e])
             (simp_all add: serveCodec_read_error outcome_of_def)
      next
        case None
        note rd = rd [unfolded None]
        obtain reply ei where
          f: "Func (smethod sm) (if passReq svc then Some (effective_request s mn r) else None)
                args = (reply, ei)"
          by (cases "Func (smethod sm)
                (if passReq svc then Some (effective_request s mn r) else None) args")
        show ?thesis
        proof (cases ei)
          case (Some e)
          with m g rd f show ?thesis
            by (intro CallError [of mn svc sm args reply e])
               (simp_all add: serveCodec_called outcome_of_def)
        next
          case None
          note f = f [unfolded None]
          show ?thesis
          proof (cases "codec_WriteResponse E (c, r) reply")
            case (Some e)
            with m g rd f show ?thesis
              by (intro WriteError [of mn svc sm args reply e])
                 (simp_all add: serveCodec_called outcome_of_def)
          next
            case None
            with m g rd f show ?thesis
              by (intro Ok [of mn svc sm args reply])
                 (simp_all add: serveCodec_called outcome_of_def)
          qed
        qed
      qed
    qed
  qed
qed

lemma statuses_serveCodec:
  "statuses (serveCodec E s r (Some c)) = (if outcome_of E s r c = Success then [] else [200])"
  by (cases rule: serveCodec_cases [of E c r s])
     (simp_all add: statuses_append call_steps_quiet hook_events)

lemma after_infos_serveCodec:
  "after_infos (serveCodec E s r (Some c)) =
     (if outcome_of E s r c = Success \<and> afterFunc s \<noteq> None
      then [\<lparr>info_Method = fst (codec_Method E (c, r)), info_Error = None,
              info_Request = effective_request s (fst (codec_Method E (c, r))) r,
              info_StatusCode = 200\<rparr>]
      else [])"
  by (cases rule: serveCodec_cases [of E c r s])
     (simp_all add: after_infos_append call_steps_quiet hook_events)

lemma Panic_serveCodec: "Panic \<notin> set (serveCodec E s r (Some c))"
  by (cases rule: serveCodec_cases [of E c r s])
     (simp_all add: call_steps_quiet split: option.splits)

lemma ServeHTTP_405:
  "Verb r \<notin> supportedMethods s \<Longrightarrow>
   ServeHTTP L E s r = defaultErrorResponse s r 405 (MethodNotAllowedError (Verb r))"
  by (simp add: ServeHTTP_def)

lemma ServeHTTP_415:
  "Verb r \<in> supportedMethods s \<Longrightarrow> chooseCodec L s (contentType_of r) = None \<Longrightarrow>
   ServeHTTP L E s r =
     defaultErrorResponse s r 415 (UnsupportedMediaTypeError (contentType_of r))"
  by (simp add: ServeHTTP_def Let_def)

lemma ServeHTTP_codec:
  "Verb r \<in> supportedMethods s \<Longrightarrow> chooseCodec L s (contentType_of r) = Some codec \<Longrightarrow>
   ServeHTTP L E s r = serveCodec E s r codec"
  by (simp add: ServeHTTP_def Let_def)

lemma defaultErrorResponse_eq:
  "defaultErrorResponse s r st e =
     (case defaultCodec s of
        None \<Rightarrow> [Panic]
      | Some dc \<Rightarrow> [NewRequest dc r, WriteHeader st, WriteErrorResponse (dc, r) e])"
  by (simp add: defaultErrorResponse_def handleErrorResponse_def split: option.splits)

lemma defaultErrorResponse_observed:
  "statuses (defaultErrorResponse s r st e) = (if defaultCodec s = None then [] else [st])"
  "http_status (defaultErrorResponse s r st e) = (if defaultCodec s = None then None else Some st)"
  "\<not> list_ex rpc_step (defaultErrorResponse s r st e)"
  "after_infos (defaultErrorResponse s r st e) = []"
  by (cases "defaultCodec s"; simp add: defaultErrorResponse_eq http_status_def)+

lemma serveCodec_failure_ends:
  "outcome_of E s r c \<noteq> Success \<Longrightarrow>
   \<exists>pre e. serveCodec E s r (Some c) = pre @ [WriteHeader 200, WriteErrorResponse (c, r) e]"
proof (cases rule: serveCodec_cases [of E c r s])
  case (MethodError mn e)
  then have "serveCodec E s r (Some c) =
      [NewRequest c r, CodecMethod (c, r)] @
      [WriteHeader 200, WriteErrorResponse (c, r) (CodecRequestMethodError e)]"
    by simp
  then show ?thesis by blast
next
  case (GetError mn e)
  then have "serveCodec E s r (Some c) =
      [NewRequest c r, CodecMethod (c, r)] @ [WriteHeader 200, WriteErrorResponse (c, r) e]"
    by simp
  then show ?thesis by blast
next
  case (ReadError mn svc sm args e)
  then have "serveCodec E s r (Some c) =
      [NewRequest c r, CodecMethod (c, r), ReadRequest (c, r) (argsType sm)] @
      [WriteHeader 200, WriteErrorResponse (c, r) (CodecReadRequestError e)]"
    by simp
  then show ?thesis by blast
next
  case (CallError mn svc sm args reply e)
  then have "serveCodec E s r (Some c) =
      ([NewRequest c r, CodecMethod (c, r), ReadRequest (c, r) (argsType sm)] @
       call_steps s r mn svc sm args) @ [WriteHeader 200, WriteErrorResponse (c, r) e]"
    by simp
  then show ?thesis by blast
next
  case (WriteError mn svc sm args reply e)
  then have "serveCodec E s r (Some c) =
      ([NewRequest c r, CodecMethod (c, r), ReadRequest (c, r) (argsType sm)] @
       call_steps s r mn svc sm args @
       [HeaderSet ''x-content-type-options'' ''nosniff'', WriteResponse (c, r) reply]) @
      [WriteHeader 200, WriteErrorResponse (c, r) (CodecWriteResponseError e)]"
    by simp
  then show ?thesis by blast
next
  case (Ok mn svc sm args reply)
  assume "outcome_of E s r c \<noteq> Success"
  with Ok show ?thesis by simp
qed

lemma http_status_serveCodec: "http_status (serveCodec E s r (Some c)) = Some 200"
  by (simp add: http_status_def Panic_serveCodec statuses_serveCodec)

text \<open>
  Claim C4. The dispatcher writes the status 405 exactly on the path of a verb
  that is not allowed and 415 exactly on the path where no codec is chosen, each
  through the default codec and before any step of the RPC (with a nil default
  codec the handler panics and writes nothing). Once a codec is chosen, every
  outcome has the status 200: each of the five failures ends with
  \<^verbatim>\<open>WriteHeader(200)\<close> and the error envelope of the chosen codec, and on
  success the dispatcher writes no status, which is a response with status 200.
  A nil codec chosen as the only codec of the map makes the handler panic.
\<close>

theorem ServeHTTP_status:
  "(Verb r \<notin> supportedMethods s \<longrightarrow>
      statuses (ServeHTTP L E s r) = (if defaultCodec s = None then [] else [405]) \<and>
      http_status (ServeHTTP L E s r) = (if defaultCodec s = None then None else Some 405) \<and>
      \<not> list_ex rpc_step (ServeHTTP L E s r)) \<and>
   (Verb r \<in> supportedMethods s \<and> chooseCodec L s (contentType_of r) = None \<longrightarrow>
      statuses (ServeHTTP L E s r) = (if defaultCodec s = None then [] else [415]) \<and>
      http_status (ServeHTTP L E s r) = (if defaultCodec s = None then None else Some 415) \<and>
      \<not> list_ex rpc_step (ServeHTTP L E s r)) \<and>
   (Verb r \<in> supportedMethods s \<and> chooseCodec L s (contentType_of r) = Some None \<longrightarrow>
      ServeHTTP L E s r = [Panic]) \<and>
   (Verb r \<in> supportedMethods s \<and> chooseCodec L s (contentType_of r) = Some (Some c) \<longrightarrow>
      statuses (ServeHTTP L E s r) = (if outcome_of E s r c = Success then [] else [200]) \<and>
      http_status (ServeHTTP L E s r) = Some 200 \<and>
      (outcome_of E s r c \<noteq> Success \<longrightarrow>
         (\<exists>pre e. ServeHTTP L E s r = pre @ [WriteHeader 200, WriteErrorResponse (c, r) e])))"
  by (simp add: ServeHTTP_405 ServeHTTP_415 ServeHTTP_codec defaultErrorResponse_observed
        serveCodec_nil statuses_serveCodec http_status_serveCodec serveCodec_failure_ends)

lemmas srv_defs = demo_server_def bare_server_def RegisterAfterFunc_def RegisterBeforeFunc_def
  RegisterInterceptFunc_def RegisterService_def RegisterCodec_def NewServer_def ToLower_def
  lower_byte_def contentType_of_def Header_Get_def post_def chooseCodec_def demo_env_def
  demo_intercept_def

lemma demo_registry: "registry demo_server = calc_registry"
  by (simp add: srv_defs calc_registry_def split: prod.splits)

lemma demo_codecs:
  "codecs demo_server = [(''application/json'', Some ''json''), (''application/xml'', Some ''xml'')]"
  by (simp add: srv_defs RuneSelf_def ascii_tables_def split: prod.splits)

lemma demo_fields:
  "supportedMethods demo_server = {''POST''}"
  "defaultCodec demo_server = Some ''json''"
  "interceptFunc demo_server = Some demo_intercept"
  "beforeFunc demo_server \<noteq> None"
  "afterFunc demo_server \<noteq> None"
  by (simp_all add: demo_server_def RegisterAfterFunc_def RegisterBeforeFunc_def
      RegisterInterceptFunc_def RegisterService_def RegisterCodec_def NewServer_def
      split: prod.splits)

lemma choose_json:
  "chooseCodec ascii_tables demo_server
     (contentType_of (post ''application/json; charset=utf-8'' m)) = Some (Some ''json'')"
  by (simp add: chooseCodec_def demo_codecs contentType_of_def post_def Header_Get_def
      ToLower_def lower_byte_def RuneSelf_def ascii_tables_def)

lemma ToLower_JSON: "ToLower ascii_tables ''Application/JSON'' = ''application/json''"
  by (simp add: ToLower_def lower_byte_def RuneSelf_def char_of_def bit_Suc_0_iff)

lemma choose_JSON:
  "chooseCodec ascii_tables demo_server
     (contentType_of (post ''Application/JSON'' m)) = Some (Some ''json'')"
  by (simp add: chooseCodec_def demo_codecs contentType_of_def post_def Header_Get_def
      ToLower_JSON)

lemma get_demo:
  "get calc_registry ''Calc.Fail'' =
     Inr (\<lparr>name = ''Calc'', rcvr = Calc, rcvrType = TypeOf Calc,
            methods = register_methods ascii_tables True [] Calc, passReq = True\<rparr>,
          \<lparr>smethod = Fail, argsType = NonPtrType Struct ''Args'' ''main'',
            replyType = NonPtrType Struct ''Reply'' ''main''\<rparr>)"
  by (simp add: calc_registry_def get_def services_at_def ex_defs)

lemma get_demo_Add:
  "get calc_registry ''Calc.Add'' =
     Inr (\<lparr>name = ''Calc'', rcvr = Calc, rcvrType = TypeOf Calc,
            methods = register_methods ascii_tables True [] Calc, passReq = True\<rparr>,
          \<lparr>smethod = Add, argsType = NonPtrType Struct ''Args'' ''main'',
            replyType = NonPtrType Struct ''Reply'' ''main''\<rparr>)"
  by (simp add: calc_registry_def get_def services_at_def ex_defs)

lemma choose_xml:
  "chooseCodec ascii_tables demo_server
     (contentType_of (post ''application/xml'' m)) = Some (Some ''xml'')"
  by (simp add: chooseCodec_def demo_codecs contentType_of_def post_def Header_Get_def
      ToLower_def lower_byte_def RuneSelf_def ascii_tables_def)

lemma demo_effective:
  "effective_request demo_server mn r = r\<lparr>addr := 40\<rparr>"
  by (simp add: effective_request_def demo_fields demo_intercept_def)

lemma demo_outcome_Fail:
  "outcome_of demo_env demo_server (post ct ''Calc.Fail'') c = MethodReturnedError"
  by (simp add: outcome_of_def demo_env_def demo_registry post_def Header_Get_def get_demo
      Fail_def)

lemma demo_outcome_Add:
  "outcome_of demo_env demo_server (post ct ''Calc.Add'') c =
     (if c = ''xml'' then ReplyEncodeFailure else Success)"
  by (simp add: outcome_of_def demo_env_def demo_registry post_def Header_Get_def get_demo_Add
      Add_def)

text \<open>
  A request for \<open>''Calc.Fail''\<close> with content type \<open>''Application/JSON''\<close>: the
  method returns an error and the status is 200.
\<close>

theorem ServeHTTP_status_witness:
  "Verb (post ''Application/JSON'' ''Calc.Fail'') \<in> supportedMethods demo_server \<and>
   chooseCodec ascii_tables demo_server (contentType_of (post ''Application/JSON'' ''Calc.Fail'')) =
     Some (Some ''json'') \<and>
   outcome_of demo_env demo_server (post ''Application/JSON'' ''Calc.Fail'') ''json'' =
     MethodReturnedError \<and>
   statuses (ServeHTTP ascii_tables demo_env demo_server (post ''Application/JSON'' ''Calc.Fail'')) =
     [200] \<and>
   http_status (ServeHTTP ascii_tables demo_env demo_server (post ''Application/JSON'' ''Calc.Fail'')) =
     Some 200"
proof -
  have v: "Verb (post ''Application/JSON'' ''Calc.Fail'') \<in> supportedMethods demo_server"
    by (simp add: demo_fields post_def)
  from ServeHTTP_status [of "post ''Application/JSON'' ''Calc.Fail''" demo_server ascii_tables
      demo_env "''json''"] v choose_JSON demo_outcome_Fail
  show ?thesis by simp
qed

text \<open>
  Claim C8. The after hook is called once when the outcome is a success and a
  hook is registered, with no error, the status code 200 and the request the
  method was given; the call is the last step, right after the reply was
  encoded without error, and no error envelope is written. On every other
  outcome, the failure to encode the reply included, and on the paths of the
  statuses 405 and 415 and of a nil codec, it is not called.
\<close>

theorem after_hook_only_on_success:
  "(Verb r \<in> supportedMethods s \<and> chooseCodec L s (contentType_of r) = Some (Some c) \<longrightarrow>
      after_infos (ServeHTTP L E s r) =
        (if outcome_of E s r c = Success \<and> afterFunc s \<noteq> None
         then [\<lparr>info_Method = fst (codec_Method E (c, r)), info_Error = None,
                 info_Request = effective_request s (fst (codec_Method E (c, r))) r,
                 info_StatusCode = 200\<rparr>]
         else []) \<and>
      (outcome_of E s r c = Success \<and> afterFunc s \<noteq> None \<longrightarrow>
         (\<exists>pre reply i.
            ServeHTTP L E s r = pre @ [WriteResponse (c, r) reply, AfterFunc i] \<and>
            codec_WriteResponse E (c, r) reply = None \<and>
            error_writes (ServeHTTP L E s r) = []))) \<and>
   (\<not> (Verb r \<in> supportedMethods s \<and>
        (\<exists>c. chooseCodec L s (contentType_of r) = Some (Some c))) \<longrightarrow>
      after_infos (ServeHTTP L E s r) = [])"
proof (intro conjI impI)
  assume a: "Verb r \<in> supportedMethods s \<and> chooseCodec L s (contentType_of r) = Some (Some c)"
  then show "after_infos (ServeHTTP L E s r) =
        (if outcome_of E s r c = Success \<and> afterFunc s \<noteq> None
         then [\<lparr>info_Method = fst (codec_Method E (c, r)), info_Error = None,
                 info_Request = effective_request s (fst (codec_Method E (c, r))) r,
                 info_StatusCode = 200\<rparr>]
         else [])"
    by (simp add: ServeHTTP_codec after_infos_serveCodec)
  assume b: "outcome_of E s r c = Success \<and> afterFunc s \<noteq> None"
  then obtain f where f: "afterFunc s = Some f" by auto
  show "\<exists>pre reply i.
            ServeHTTP L E s r = pre @ [WriteResponse (c, r) reply, AfterFunc i] \<and>
            codec_WriteResponse E (c, r) reply = None \<and>
            error_writes (ServeHTTP L E s r) = []"
  proof (cases rule: serveCodec_cases [of E c r s])
    case (Ok mn svc sm args reply)
    then have "ServeHTTP L E s r =
        ([NewRequest c r, CodecMethod (c, r), ReadRequest (c, r) (argsType sm)] @
         call_steps s r mn svc sm args @ [HeaderSet ''x-content-type-options'' ''nosniff'']) @
        [WriteResponse (c, r) reply,
         AfterFunc \<lparr>info_Method = mn, info_Error = None,
           info_Request = effective_request s mn r, info_StatusCode = 200\<rparr>]"
      using a f by (simp add: ServeHTTP_codec)
    moreover from this have "error_writes (ServeHTTP L E s r) = []"
      by (simp add: error_writes_append call_steps_quiet)
    ultimately show ?thesis using Ok(5) by blast
  qed (use b in simp_all)
next
  assume n: "\<not> (Verb r \<in> supportedMethods s \<and>
        (\<exists>c. chooseCodec L s (contentType_of r) = Some (Some c)))"
  show "after_infos (ServeHTTP L E s r) = []"
  proof (cases "Verb r \<in> supportedMethods s")
    case False
    then show ?thesis by (simp add: ServeHTTP_405 defaultErrorResponse_observed)
  next
    case True
    with n have "chooseCodec L s (contentType_of r) = None \<or>
        chooseCodec L s (contentType_of r) = Some None"
      by (cases "chooseCodec L s (contentType_of r)") auto
    with True show ?thesis
      by (auto simp: ServeHTTP_415 ServeHTTP_codec defaultErrorResponse_observed serveCodec_nil)
  qed
qed

text \<open>
  \<open>''Calc.Add''\<close> through the codec \<open>''json''\<close> succeeds and the after hook is
  called once; through \<open>''xml''\<close>, which fails to encode the reply, it is not
  called.
\<close>

theorem after_hook_only_on_success_witness:
  "outcome_of demo_env demo_server (post ''application/json; charset=utf-8'' ''Calc.Add'') ''json'' =
     Success \<and>
   afterFunc demo_server \<noteq> None \<and>
   after_infos (ServeHTTP ascii_tables demo_env demo_server
       (post ''application/json; charset=utf-8'' ''Calc.Add'')) =
     [\<lparr>info_Method = ''Calc.Add'', info_Error = None,
       info_Request = (post ''application/json; charset=utf-8'' ''Calc.Add'')\<lparr>addr := 40\<rparr>,
       info_StatusCode = 200\<rparr>] \<and>
   outcome_of demo_env demo_server (post ''application/xml'' ''Calc.Add'') ''xml'' =
     ReplyEncodeFailure \<and>
   after_infos (ServeHTTP ascii_tables demo_env demo_server (post ''application/xml'' ''Calc.Add'')) = []"
proof -
  have v: "\<And>ct m. Verb (post ct m) \<in> supportedMethods demo_server"
    by (simp add: demo_fields post_def)
  have m: "\<And>ct c. fst (codec_Method demo_env (c, post ct ''Calc.Add'')) = ''Calc.Add''"
    by (simp add: demo_env_def post_def Header_Get_def)
  from after_hook_only_on_success [of "post ''application/json; charset=utf-8'' ''Calc.Add''"
      demo_server ascii_tables "''json''" demo_env] v choose_json demo_outcome_Add demo_fields(5)
  have 1: "after_infos (ServeHTTP ascii_tables demo_env demo_server
       (post ''application/json; charset=utf-8'' ''Calc.Add'')) =
     [\<lparr>info_Method = ''Calc.Add'', info_Error = None,
       info_Request = (post ''application/json; charset=utf-8'' ''Calc.Add'')\<lparr>addr := 40\<rparr>,
       info_StatusCode = 200\<rparr>]"
    by (simp add: m demo_effective)
  from after_hook_only_on_success [of "post ''application/xml'' ''Calc.Add''"
      demo_server ascii_tables "''xml''" demo_env] v choose_xml demo_outcome_Add
  have 2: "after_infos (ServeHTTP ascii_tables demo_env demo_server
       (post ''application/xml'' ''Calc.Add'')) = []"
    by simp
  show ?thesis using 1 2 demo_fields(5) by (simp add: demo_outcome_Add)
qed

lemma call_steps_observed:
  "before_infos (call_steps s r mn svc sm args) =
     (if beforeFunc s = None then []
      else [\<lparr>info_Method = mn, info_Error = None,
              info_Request = effective_request s mn r, info_StatusCode = 0\<rparr>])"
  "calls (call_steps s r mn svc sm args) =
     [(name svc, Name (smethod sm),
       if passReq svc then Some (effective_request s mn r) else None, args)]"
  by (cases "interceptFunc s"; cases "beforeFunc s"; simp add: call_steps_def)+

text \<open>
  Claim C9. When the method name is read, the method resolved and the arguments
  decoded, the before hook (if registered) is called once and the method once,
  both with the effective request (the method only when its service takes the
  request): the replacement the intercept hook returns, and the original
  request when the hook returns nil or no hook is registered.
\<close>

theorem intercept_replacement_used:
  "(Verb r \<in> supportedMethods s \<and> chooseCodec L s (contentType_of r) = Some (Some c) \<and>
    codec_Method E (c, r) = (mn, None) \<and> get (registry s) mn = Inr (svc, sm) \<and>
    codec_ReadRequest E (c, r) (argsType sm) = (args, None) \<longrightarrow>
      before_infos (ServeHTTP L E s r) =
        (if beforeFunc s = None then []
         else [\<lparr>info_Method = mn, info_Error = None,
                 info_Request = effective_request s mn r, info_StatusCode = 0\<rparr>]) \<and>
      calls (ServeHTTP L E s r) =
        [(name svc, Name (smethod sm),
          if passReq svc then Some (effective_request s mn r) else None, args)]) \<and>
   (interceptFunc s = None \<longrightarrow> effective_request s mn r = r) \<and>
   (\<forall>f. interceptFunc s = Some f \<longrightarrow>
      effective_request s mn r =
        (case f \<lparr>info_Method = mn, info_Error = None, info_Request = r,
                  info_StatusCode = 0\<rparr> of
           None \<Rightarrow> r
         | Some replacement \<Rightarrow> replacement))"
proof (intro conjI impI allI)
  assume a: "Verb r \<in> supportedMethods s \<and> chooseCodec L s (contentType_of r) = Some (Some c) \<and>
    codec_Method E (c, r) = (mn, None) \<and> get (registry s) mn = Inr (svc, sm) \<and>
    codec_ReadRequest E (c, r) (argsType sm) = (args, None)"
  then have tr: "ServeHTTP L E s r = serveCodec E s r (Some c)"
    by (simp add: ServeHTTP_codec)
  show "before_infos (ServeHTTP L E s r) =
        (if beforeFunc s = None then []
         else [\<lparr>info_Method = mn, info_Error = None,
                 info_Request = effective_request s mn r, info_StatusCode = 0\<rparr>])"
    unfolding tr using a
    by (cases rule: serveCodec_cases [of E c r s])
       (simp_all add: before_infos_append call_steps_observed hook_events)
  show "calls (ServeHTTP L E s r) =
        [(name svc, Name (smethod sm),
          if passReq svc then Some (effective_request s mn r) else None, args)]"
    unfolding tr using a
    by (cases rule: serveCodec_cases [of E c r s])
       (simp_all add: calls_append call_steps_observed hook_events)
next
  assume "interceptFunc s = None"
  then show "effective_request s mn r = r"
    by (simp add: effective_request_def)
next
  fix f
  assume "interceptFunc s = Some f"
  then show "effective_request s mn r =
        (case f \<lparr>info_Method = mn, info_Error = None, info_Request = r,
                  info_StatusCode = 0\<rparr> of
           None \<Rightarrow> r
         | Some replacement \<Rightarrow> replacement)"
    by (simp add: effective_request_def)
qed

text \<open>
  The intercept hook of the demo server returns a request at address 40: that
  request is given to the before hook and to \<open>Add\<close>.
\<close>

theorem intercept_replacement_used_witness:
  "interceptFunc demo_server = Some demo_intercept \<and>
   demo_intercept \<lparr>info_Method = ''Calc.Add'', info_Error = None,
      info_Request = post ''application/json'' ''Calc.Add'', info_StatusCode = 0\<rparr> =
     Some ((post ''application/json'' ''Calc.Add'')\<lparr>addr := 40\<rparr>) \<and>
   before_infos (ServeHTTP ascii_tables demo_env demo_server (post ''application/json'' ''Calc.Add'')) =
     [\<lparr>info_Method = ''Calc.Add'', info_Error = None,
       info_Request = (post ''application/json'' ''Calc.Add'')\<lparr>addr := 40\<rparr>,
       info_StatusCode = 0\<rparr>] \<and>
   calls (ServeHTTP ascii_tables demo_env demo_server (post ''application/json'' ''Calc.Add'')) =
     [(''Calc'', ''Add'', Some ((post ''application/json'' ''Calc.Add'')\<lparr>addr := 40\<rparr>), 2)]"
proof -
  let ?r = "post ''application/json'' ''Calc.Add''"
  have v: "Verb ?r \<in> supportedMethods demo_server"
    by (simp add: demo_fields post_def)
  have c: "chooseCodec ascii_tables demo_server (contentType_of ?r) = Some (Some ''json'')"
    by (simp add: chooseCodec_def demo_codecs contentType_of_def post_def Header_Get_def
        ToLower_def lower_byte_def RuneSelf_def ascii_tables_def)
  have m: "codec_Method demo_env (''json'', ?r) = (''Calc.Add'', None)"
    by (simp add: demo_env_def post_def Header_Get_def)
  have g: "get (registry demo_server) ''Calc.Add'' =
     Inr (\<lparr>name = ''Calc'', rcvr = Calc, rcvrType = TypeOf Calc,
            methods = register_methods ascii_tables True [] Calc, passReq = True\<rparr>,
          \<lparr>smethod = Add, argsType = NonPtrType Struct ''Args'' ''main'',
            replyType = NonPtrType Struct ''Reply'' ''main''\<rparr>)"
    by (simp add: demo_registry get_demo_Add)
  have rd: "codec_ReadRequest demo_env (''json'', ?r) (NonPtrType Struct ''Args'' ''main'') = (2, None)"
    by (simp add: demo_env_def)
  have i: "demo_intercept \<lparr>info_Method = ''Calc.Add'', info_Error = None,
      info_Request = ?r, info_StatusCode = 0\<rparr> = Some (?r\<lparr>addr := 40\<rparr>)"
    by (simp add: demo_intercept_def)
  from intercept_replacement_used [of ?r demo_server ascii_tables "''json''" demo_env
      "''Calc.Add''"
      "\<lparr>name = ''Calc'', rcvr = Calc, rcvrType = TypeOf Calc,
        methods = register_methods ascii_tables True [] Calc, passReq = True\<rparr>"
      "\<lparr>smethod = Add, argsType = NonPtrType Struct ''Args'' ''main'',
        replyType = NonPtrType Struct ''Reply'' ''main''\<rparr>" 2, THEN conjunct1] v c m g rd
  have "before_infos (ServeHTTP ascii_tables demo_env demo_server ?r) =
     [\<lparr>info_Method = ''Calc.Add'', info_Error = None,
       info_Request = ?r\<lparr>addr := 40\<rparr>, info_StatusCode = 0\<rparr>] \<and>
   calls (ServeHTTP ascii_tables demo_env demo_server ?r) =
     [(''Calc'', ''Add'', Some (?r\<lparr>addr := 40\<rparr>), 2)]"
    by (simp add: demo_fields demo_effective Add_def)
  then show ?thesis
    by (simp add: demo_fields i)
qed

text \<open>
  Claim C10. On the path of a verb that is not allowed and on the path where no
  codec is chosen, the whole trace is: the default codec makes a codec request,
  the status is written, and that codec request writes the error envelope (or
  the handler panics, when the default codec is nil). No other codec is called.
  The statuses 405 and 415 are written on no other path. The default codec is
  the one given to \<^verbatim>\<open>NewServer\<close>: no operation of the server changes it.
\<close>

theorem transport_errors_use_default_codec:
  "(Verb r \<notin> supportedMethods s \<longrightarrow>
      ServeHTTP L E s r =
        (case defaultCodec s of
           None \<Rightarrow> [Panic]
         | Some dc \<Rightarrow>
             [NewRequest dc r, WriteHeader 405,
              WriteErrorResponse (dc, r) (MethodNotAllowedError (Verb r))])) \<and>
   (Verb r \<in> supportedMethods s \<and> chooseCodec L s (contentType_of r) = None \<longrightarrow>
      ServeHTTP L E s r =
        (case defaultCodec s of
           None \<Rightarrow> [Panic]
         | Some dc \<Rightarrow>
             [NewRequest dc r, WriteHeader 415,
              WriteErrorResponse (dc, r) (UnsupportedMediaTypeError (contentType_of r))])) \<and>
   (Verb r \<in> supportedMethods s \<and> chooseCodec L s (contentType_of r) = Some (Some c) \<longrightarrow>
      statuses (ServeHTTP L E s r) \<noteq> [405] \<and> statuses (ServeHTTP L E s r) \<noteq> [415]) \<and>
   defaultCodec (NewServer dc0 :: ('c, 'v) Server) = dc0 \<and>
   defaultCodec (RegisterCodec L s codec ct) = defaultCodec s \<and>
   defaultCodec (snd (RegisterService L s rc nm)) = defaultCodec s \<and>
   defaultCodec (snd (RegisterTCPService L s rc nm)) = defaultCodec s \<and>
   defaultCodec (RegisterInterceptFunc s fi) = defaultCodec s \<and>
   defaultCodec (RegisterBeforeFunc s fb) = defaultCodec s \<and>
   defaultCodec (RegisterAfterFunc s fb) = defaultCodec s \<and>
   defaultCodec (AddSupportedHTTPMethod s verb) = defaultCodec s"
  by (simp add: ServeHTTP_405 ServeHTTP_415 ServeHTTP_codec defaultErrorResponse_eq
      statuses_serveCodec NewServer_def RegisterCodec_def RegisterService_def
      RegisterTCPService_def RegisterInterceptFunc_def RegisterBeforeFunc_def
      RegisterAfterFunc_def AddSupportedHTTPMethod_def split: prod.splits)

text \<open>
  The demo server has the default codec \<open>''json''\<close> and the codec \<open>''xml''\<close>
  registered for \<open>''application/xml''\<close>: a \<open>GET\<close> request of that content type
  is answered 405 through \<open>''json''\<close>, and a request of content type
  \<open>''text/plain''\<close> is answered 415 through \<open>''json''\<close>.
\<close>

theorem transport_errors_use_default_codec_witness:
  "defaultCodec demo_server = Some ''json'' \<and>
   map_of (codecs demo_server) ''application/xml'' = Some (Some ''xml'') \<and>
   ServeHTTP ascii_tables demo_env demo_server ((post ''application/xml'' ''Calc.Add'')\<lparr>Verb := ''GET''\<rparr>) =
     [NewRequest ''json'' ((post ''application/xml'' ''Calc.Add'')\<lparr>Verb := ''GET''\<rparr>),
      WriteHeader 405,
      WriteErrorResponse (''json'', (post ''application/xml'' ''Calc.Add'')\<lparr>Verb := ''GET''\<rparr>)
        (MethodNotAllowedError ''GET'')] \<and>
   ServeHTTP ascii_tables demo_env demo_server (post ''text/plain'' ''Calc.Add'') =
     [NewRequest ''json'' (post ''text/plain'' ''Calc.Add''),
      WriteHeader 415,
      WriteErrorResponse (''json'', post ''text/plain'' ''Calc.Add'')
        (UnsupportedMediaTypeError ''text/plain'')]"
proof -
  let ?g = "(post ''application/xml'' ''Calc.Add'')\<lparr>Verb := ''GET''\<rparr>"
  let ?p = "post ''text/plain'' ''Calc.Add''"
  have v: "Verb ?g \<notin> supportedMethods demo_server"
    by (simp add: demo_fields)
  have w: "Verb ?p \<in> supportedMethods demo_server"
    by (simp add: demo_fields post_def)
  have ct: "contentType_of ?p = ''text/plain''"
    by (simp add: contentType_of_def post_def Header_Get_def)
  have c: "chooseCodec ascii_tables demo_server (contentType_of ?p) = None"
    unfolding ct
    by (simp add: chooseCodec_def demo_codecs ToLower_def lower_byte_def RuneSelf_def
        ascii_tables_def)
  from transport_errors_use_default_codec [of ?g demo_server ascii_tables demo_env,
      THEN conjunct1] v
  have 1: "ServeHTTP ascii_tables demo_env demo_server ?g =
     [NewRequest ''json'' ?g, WriteHeader 405,
      WriteErrorResponse (''json'', ?g) (MethodNotAllowedError ''GET'')]"
    by (simp add: demo_fields)
  from transport_errors_use_default_codec [of ?p demo_server ascii_tables demo_env,
      THEN conjunct2, THEN conjunct1] w c
  have 2: "ServeHTTP ascii_tables demo_env demo_server ?p =
     [NewRequest ''json'' ?p, WriteHeader 415,
      WriteErrorResponse (''json'', ?p) (UnsupportedMediaTypeError ''text/plain'')]"
    by (simp add: demo_fields ct)
  show ?thesis using 1 2 by (simp add: demo_fields demo_codecs)
qed

lemma Index_ge: "- 1 \<le> Index s c"
  by (induction s) (auto simp: Let_def)

lemma take_Index:
  "(if Index s c \<noteq> - 1 then take (nat (Index s c)) s else s) = takeWhile (\<lambda>x. x \<noteq> c) s"
proof (induction s)
  case Nil
  then show ?case by simp
next
  case (Cons x xs)
  show ?case
  proof (cases "x = c")
    case True
    then show ?thesis by simp
  next
    case False
    have "0 \<le> Index xs c \<or> Index xs c = - 1"
      using Index_ge [of xs c] by linarith
    then show ?thesis
      using Cons.IH False by (auto simp: Let_def nat_add_distrib)
  qed
qed

lemma contentType_of_takeWhile:
  "contentType_of r = takeWhile (\<lambda>x. x \<noteq> CHR '';'') (Header_Get (Header r) ''Content-Type'')"
  using take_Index [of "Header_Get (Header r) ''Content-Type''" "CHR '';''"]
  by (simp add: contentType_of_def Let_def)

lemma codec_requests_append: "codec_requests (xs @ ys) = codec_requests xs @ codec_requests ys"
  by (induction xs rule: codec_requests.induct) simp_all

lemma call_steps_codec_requests: "codec_requests (call_steps s r mn svc sm args) = []"
  by (cases "interceptFunc s"; cases "beforeFunc s"; simp add: call_steps_def)

lemma codec_requests_serveCodec: "codec_requests (serveCodec E s r (Some c)) = [(c, r)]"
  by (cases rule: serveCodec_cases [of E c r s])
     (simp_all add: codec_requests_append call_steps_codec_requests split: option.splits)

lemma ToLower_Nil: "ToLower L '''' = ''''"
  by (simp add: ToLower_def)

text \<open>
  Claim C5, as amended. The content type negotiated on is the header up to its
  first semicolon. When it is empty and the map holds exactly one codec, that
  codec is chosen. In every other case the lower-cased content type is looked
  up in the map, the empty one like any other (it is its own lower case): no
  codec is chosen when the entry is absent or nil, and then the status is 415
  and the error is the unsupported-media-type error on the stripped content
  type. The chosen codec is the one that makes the codec request. So two
  headers that agree up to the first semicolon choose the same codec.
\<close>

theorem chooseCodec_by_content_type:
  "contentType_of r = takeWhile (\<lambda>x. x \<noteq> CHR '';'') (Header_Get (Header r) ''Content-Type'') \<and>
   (contentType_of r = '''' \<and> length (codecs s) = 1 \<longrightarrow>
      (\<exists>key. codecs s = [(key, snd (hd (codecs s)))]) \<and>
      chooseCodec L s (contentType_of r) = Some (snd (hd (codecs s)))) \<and>
   (\<not> (contentType_of r = '''' \<and> length (codecs s) = 1) \<longrightarrow>
      chooseCodec L s (contentType_of r) =
        (case map_of (codecs s) (ToLower L (contentType_of r)) of
           Some (Some codec) \<Rightarrow> Some (Some codec)
         | Some None \<Rightarrow> None
         | None \<Rightarrow> None)) \<and>
   ToLower L '''' = '''' \<and>
   (Verb r \<in> supportedMethods s \<and> chooseCodec L s (contentType_of r) = None \<longrightarrow>
      statuses (ServeHTTP L E s r) = (if defaultCodec s = None then [] else [415]) \<and>
      error_writes (ServeHTTP L E s r) =
        (case defaultCodec s of
           None \<Rightarrow> []
         | Some dc \<Rightarrow> [((dc, r), UnsupportedMediaTypeError (contentType_of r))])) \<and>
   (Verb r \<in> supportedMethods s \<and> chooseCodec L s (contentType_of r) = Some (Some c) \<longrightarrow>
      codec_requests (ServeHTTP L E s r) = [(c, r)])"
proof (intro conjI impI)
  show "contentType_of r =
      takeWhile (\<lambda>x. x \<noteq> CHR '';'') (Header_Get (Header r) ''Content-Type'')"
    by (rule contentType_of_takeWhile)
next
  assume a: "contentType_of r = '''' \<and> length (codecs s) = 1"
  then obtain kc where "codecs s = [kc]"
    by (cases "codecs s") auto
  then show "\<exists>key. codecs s = [(key, snd (hd (codecs s)))]"
    by (cases kc) simp
  from a show "chooseCodec L s (contentType_of r) = Some (snd (hd (codecs s)))"
    by (simp add: chooseCodec_def)
next
  assume "\<not> (contentType_of r = '''' \<and> length (codecs s) = 1)"
  then show "chooseCodec L s (contentType_of r) =
        (case map_of (codecs s) (ToLower L (contentType_of r)) of
           Some (Some codec) \<Rightarrow> Some (Some codec)
         | Some None \<Rightarrow> None
         | None \<Rightarrow> None)"
    by (auto simp: chooseCodec_def)
next
  show "ToLower L '''' = ''''"
    by (rule ToLower_Nil)
next
  assume a: "Verb r \<in> supportedMethods s \<and> chooseCodec L s (contentType_of r) = None"
  then show "statuses (ServeHTTP L E s r) = (if defaultCodec s = None then [] else [415])"
    by (simp add: ServeHTTP_415 defaultErrorResponse_observed)
  from a show "error_writes (ServeHTTP L E s r) =
        (case defaultCodec s of
           None \<Rightarrow> []
         | Some dc \<Rightarrow> [((dc, r), UnsupportedMediaTypeError (contentType_of r))])"
    by (simp add: ServeHTTP_415 defaultErrorResponse_eq split: option.splits)
next
  assume "Verb r \<in> supportedMethods s \<and> chooseCodec L s (contentType_of r) = Some (Some c)"
  then show "codec_requests (ServeHTTP L E s r) = [(c, r)]"
    by (simp add: ServeHTTP_codec codec_requests_serveCodec)
qed

text \<open>
  \<open>''application/json; charset=utf-8''\<close> and \<open>''application/json''\<close> choose
  the codec \<open>''json''\<close>; a request with no content type chooses the only codec
  of a server with one codec, and gets 415 from the demo server, which has two
  codecs and none for the empty content type.
\<close>

theorem chooseCodec_by_content_type_witness:
  "chooseCodec ascii_tables demo_server
       (contentType_of (post ''application/json; charset=utf-8'' ''Calc.Add'')) = Some (Some ''json'') \<and>
   chooseCodec ascii_tables demo_server
       (contentType_of (post ''application/json'' ''Calc.Add'')) = Some (Some ''json'') \<and>
   codec_requests (ServeHTTP ascii_tables demo_env demo_server
       (post ''application/json; charset=utf-8'' ''Calc.Add'')) =
     [(''json'', post ''application/json; charset=utf-8'' ''Calc.Add'')] \<and>
   length (codecs single_server) = 1 \<and>
   contentType_of bare_request = '''' \<and>
   chooseCodec ascii_tables single_server (contentType_of bare_request) = Some (Some ''json'') \<and>
   length (codecs demo_server) = 2 \<and>
   statuses (ServeHTTP ascii_tables demo_env demo_server bare_request) = [415]"
proof -
  let ?a = "post ''application/json; charset=utf-8'' ''Calc.Add''"
  let ?b = "post ''application/json'' ''Calc.Add''"
  note cc = chooseCodec_by_content_type
  have ca: "contentType_of ?a = ''application/json''"
    using cc [of ?a, THEN conjunct1] by (simp add: post_def Header_Get_def)
  have cb: "contentType_of ?b = ''application/json''"
    using cc [of ?b, THEN conjunct1] by (simp add: post_def Header_Get_def)
  have c0: "contentType_of bare_request = ''''"
    using cc [of bare_request, THEN conjunct1] by (simp add: bare_request_def Header_Get_def)
  have low: "ToLower ascii_tables ''application/json'' = ''application/json''"
    by (simp add: ToLower_def lower_byte_def RuneSelf_def)
  have v: "\<And>ct m. Verb (post ct m) \<in> supportedMethods demo_server"
    by (simp add: demo_fields post_def)
  have vb: "Verb bare_request \<in> supportedMethods demo_server"
    by (simp add: demo_fields bare_request_def)
  have one: "codecs single_server = [(''application/json'', Some ''json'')]"
    by (simp add: single_server_def RegisterCodec_def NewServer_def low)
  have 1: "chooseCodec ascii_tables demo_server (contentType_of ?a) = Some (Some ''json'')"
    using cc [of ?a demo_server ascii_tables, THEN conjunct2, THEN conjunct2, THEN conjunct1]
    by (simp add: ca low demo_codecs)
  have 2: "chooseCodec ascii_tables demo_server (contentType_of ?b) = Some (Some ''json'')"
    using cc [of ?b demo_server ascii_tables, THEN conjunct2, THEN conjunct2, THEN conjunct1]
    by (simp add: cb low demo_codecs)
  have 3: "codec_requests (ServeHTTP ascii_tables demo_env demo_server ?a) = [(''json'', ?a)]"
    using cc [where r = ?a and s = demo_server and L = ascii_tables and c = "''json''"
        and E = demo_env] v 1 by simp
  have 4: "chooseCodec ascii_tables single_server (contentType_of bare_request) =
      Some (Some ''json'')"
    using cc [of bare_request single_server ascii_tables, THEN conjunct2, THEN conjunct1]
    by (simp add: c0 one)
  have 5: "chooseCodec ascii_tables demo_server (contentType_of bare_request) = None"
    using cc [of bare_request demo_server ascii_tables, THEN conjunct2, THEN conjunct2,
        THEN conjunct1]
    by (simp add: c0 demo_codecs ToLower_Nil)
  have 6: "statuses (ServeHTTP ascii_tables demo_env demo_server bare_request) = [415]"
    using cc [where r = bare_request and s = demo_server and L = ascii_tables
        and E = demo_env, THEN conjunct2, THEN conjunct2, THEN conjunct2, THEN conjunct2,
        THEN conjunct1] vb 5
    by (simp add: demo_fields)
  show ?thesis using 1 2 3 4 5 6 c0 by (simp add: one demo_codecs)
qed

lemma bare_codecs:
  "codecs bare_server = [('''', Some ''xml''), (''application/json'', Some ''json'')]"
  by (simp add: bare_server_def RegisterCodec_def NewServer_def ToLower_def lower_byte_def
      RuneSelf_def)

text \<open>
  The claim as stated fails when two codecs are registered and one of them for
  the empty content type: a request with no content type chooses that codec and
  is not answered 415.
\<close>

theorem empty_content_type_counterexample:
  "length (codecs bare_server) = 2 \<and>
   contentType_of bare_request = '''' \<and>
   chooseCodec ascii_tables bare_server (contentType_of bare_request) = Some (Some ''xml'') \<and>
   codec_requests (ServeHTTP ascii_tables demo_env bare_server bare_request) =
     [(''xml'', bare_request)] \<and>
   statuses (ServeHTTP ascii_tables demo_env bare_server bare_request) = [200]"
proof -
  have c0: "contentType_of bare_request = ''''"
    by (simp add: contentType_of_def bare_request_def Header_Get_def)
  have ch: "chooseCodec ascii_tables bare_server (contentType_of bare_request) =
      Some (Some ''xml'')"
    by (simp add: c0 chooseCodec_def bare_codecs ToLower_Nil)
  have v: "Verb bare_request \<in> supportedMethods bare_server"
    by (simp add: bare_request_def bare_server_def RegisterCodec_def NewServer_def)
  have o: "outcome_of demo_env bare_server bare_request ''xml'' = ResolutionFailure"
    by (simp add: outcome_of_def demo_env_def bare_request_def Header_Get_def get_def)
  have tr: "ServeHTTP ascii_tables demo_env bare_server bare_request =
      serveCodec demo_env bare_server bare_request (Some ''xml'')"
    using v ch by (rule ServeHTTP_codec)
  have "codec_requests (ServeHTTP ascii_tables demo_env bare_server bare_request) =
      [(''xml'', bare_request)]"
    by (simp only: tr codec_requests_serveCodec)
  moreover have "statuses (ServeHTTP ascii_tables demo_env bare_server bare_request) = [200]"
    by (simp add: tr statuses_serveCodec o)
  ultimately show ?thesis
    using c0 ch by (simp add: bare_codecs)
qed

end
